theory Spec2Isabelle
  imports Complex_Main
begin

section \<open>JavaScript values and numbers\<close>

text \<open>
  The image code of \<^verbatim>\<open>nvimage.js\<close> computes with JavaScript numbers and with
  \<^verbatim>\<open>undefined\<close> (the result of reading an array past its end, or a field never assigned).
  A value is \<open>Undefined\<close>, \<open>NaN\<close> or a finite number. The arithmetic operators are
  exact on finite numbers: their rounding to binary64, overflow and the two infinities are
  outside this model. Where a value changes its format, the rounding is part of the model:
  a store into a \<^verbatim>\<open>Float32Array\<close> rounds to binary32, and the conversion of a
  \<^verbatim>\<open>BigInt\<close> to a number rounds to binary64. Everything that depends on
  \<^verbatim>\<open>NaN\<close> or \<^verbatim>\<open>undefined\<close> (comparisons that are false, \<^verbatim>\<open>isNaN\<close>,
  \<^verbatim>\<open>===\<close>, arithmetic that propagates \<^verbatim>\<open>NaN\<close>) is modelled as JavaScript defines it.
\<close>

datatype jsval = Undefined | NaN | Number real

definition toNumber :: "jsval \<Rightarrow> jsval" where
  "toNumber v = (case v of Undefined \<Rightarrow> NaN | NaN \<Rightarrow> NaN | Number x \<Rightarrow> Number x)"

definition isNaN :: "jsval \<Rightarrow> bool" where
  "isNaN v = (case v of Number x \<Rightarrow> False | _ \<Rightarrow> True)"

definition isFinite :: "jsval \<Rightarrow> bool" where
  "isFinite v = (case v of Number x \<Rightarrow> True | _ \<Rightarrow> False)"

text \<open>
  The arithmetic operators convert \<^verbatim>\<open>undefined\<close> to \<^verbatim>\<open>NaN\<close> and propagate
  \<^verbatim>\<open>NaN\<close>. A quotient with divisor zero would be an infinity (or \<^verbatim>\<open>NaN\<close> for 0/0) in
  JavaScript; the model maps it to \<open>NaN\<close>. Every division of the functions modelled below
  stands behind a guard of the source that excludes a zero divisor.
\<close>

instantiation jsval :: "{zero, one, plus, minus, uminus, times, inverse}"
begin

definition zero_jsval :: jsval where
  "zero_jsval = Number 0"

definition one_jsval :: jsval where
  "one_jsval = Number 1"

definition plus_jsval :: "jsval \<Rightarrow> jsval \<Rightarrow> jsval" where
  "plus_jsval a b = (case (a, b) of (Number x, Number y) \<Rightarrow> Number (x + y) | _ \<Rightarrow> NaN)"

definition minus_jsval :: "jsval \<Rightarrow> jsval \<Rightarrow> jsval" where
  "minus_jsval a b = (case (a, b) of (Number x, Number y) \<Rightarrow> Number (x - y) | _ \<Rightarrow> NaN)"

definition uminus_jsval :: "jsval \<Rightarrow> jsval" where
  "uminus_jsval a = (case a of Number x \<Rightarrow> Number (- x) | _ \<Rightarrow> NaN)"

definition times_jsval :: "jsval \<Rightarrow> jsval \<Rightarrow> jsval" where
  "times_jsval a b = (case (a, b) of (Number x, Number y) \<Rightarrow> Number (x * y) | _ \<Rightarrow> NaN)"

definition divide_jsval :: "jsval \<Rightarrow> jsval \<Rightarrow> jsval" where
  "divide_jsval a b =
     (case (a, b) of
        (Number x, Number y) \<Rightarrow> (if y = 0 then NaN else Number (x / y))
      | _ \<Rightarrow> NaN)"

definition inverse_jsval :: "jsval \<Rightarrow> jsval" where
  "inverse_jsval a = (case a of Number y \<Rightarrow> (if y = 0 then NaN else Number (1 / y)) | _ \<Rightarrow> NaN)"

instance ..

end

instance jsval :: numeral
proof
  fix a b c :: jsval
  show "a + b + c = a + (b + c)"
    by (cases a; cases b; cases c) (simp_all add: plus_jsval_def)
qed

text \<open>Comparison operators: a comparison with \<^verbatim>\<open>NaN\<close> or \<^verbatim>\<open>undefined\<close> is false.\<close>

definition lt :: "jsval \<Rightarrow> jsval \<Rightarrow> bool" where
  "lt a b = (case (a, b) of (Number x, Number y) \<Rightarrow> x < y | _ \<Rightarrow> False)"

definition gt :: "jsval \<Rightarrow> jsval \<Rightarrow> bool" where
  "gt a b = (case (a, b) of (Number x, Number y) \<Rightarrow> x > y | _ \<Rightarrow> False)"

definition le :: "jsval \<Rightarrow> jsval \<Rightarrow> bool" where
  "le a b = (case (a, b) of (Number x, Number y) \<Rightarrow> x \<le> y | _ \<Rightarrow> False)"

definition ge :: "jsval \<Rightarrow> jsval \<Rightarrow> bool" where
  "ge a b = (case (a, b) of (Number x, Number y) \<Rightarrow> x \<ge> y | _ \<Rightarrow> False)"

text \<open>
  Strict equality \<^verbatim>\<open>===\<close>: \<^verbatim>\<open>NaN\<close> differs from itself, \<^verbatim>\<open>undefined\<close> equals itself.
  On these values the loose \<^verbatim>\<open>!=\<close> is the negation of \<^verbatim>\<open>===\<close>.
\<close>

definition strictEq :: "jsval \<Rightarrow> jsval \<Rightarrow> bool" where
  "strictEq a b =
     (case (a, b) of
        (Number x, Number y) \<Rightarrow> x = y
      | (Undefined, Undefined) \<Rightarrow> True
      | _ \<Rightarrow> False)"

text \<open>Truthiness of a number, as tested by \<^verbatim>\<open>!det\<close>: zero and \<^verbatim>\<open>NaN\<close> are falsy.\<close>

definition falsy :: "jsval \<Rightarrow> bool" where
  "falsy v = (case v of Number x \<Rightarrow> x = 0 | _ \<Rightarrow> True)"

definition Math_abs :: "jsval \<Rightarrow> jsval" where
  "Math_abs v = (case v of Number x \<Rightarrow> Number \<bar>x\<bar> | _ \<Rightarrow> NaN)"

definition Math_min :: "jsval \<Rightarrow> jsval \<Rightarrow> jsval" where
  "Math_min a b = (case (a, b) of (Number x, Number y) \<Rightarrow> Number (min x y) | _ \<Rightarrow> NaN)"

definition Math_max :: "jsval \<Rightarrow> jsval \<Rightarrow> jsval" where
  "Math_max a b = (case (a, b) of (Number x, Number y) \<Rightarrow> Number (max x y) | _ \<Rightarrow> NaN)"

definition Math_sqrt :: "jsval \<Rightarrow> jsval" where
  "Math_sqrt v = (case v of Number x \<Rightarrow> (if x < 0 then NaN else Number (sqrt x)) | _ \<Rightarrow> NaN)"

text \<open>\<^verbatim>\<open>Math.pow\<close> is only called with the exponent 2.\<close>

definition Math_pow :: "jsval \<Rightarrow> nat \<Rightarrow> jsval" where
  "Math_pow v n = (case v of Number x \<Rightarrow> Number (x ^ n) | _ \<Rightarrow> NaN)"

text \<open>\<^verbatim>\<open>Math.round\<close> rounds to the nearest integer, a half upwards.\<close>

definition Math_round :: "jsval \<Rightarrow> jsval" where
  "Math_round v = (case v of Number x \<Rightarrow> Number (of_int \<lfloor>x + 1 / 2\<rfloor>) | _ \<Rightarrow> NaN)"

subsection \<open>Rounding to a binary format\<close>

text \<open>
  Rounding to the nearest number of a binary floating-point format with \<open>p\<close> digits
  and least exponent \<open>emin\<close>, a tie going to the even neighbour. \<open>binExponent x\<close> is
  the exponent \<open>e\<close> with \<open>2 ^ e \<le> |x| < 2 ^ (e + 1)\<close>. The format has no largest
  exponent here: a result beyond the largest finite number would be an infinity.
\<close>

definition roundHalfEven :: "real \<Rightarrow> int" where
  "roundHalfEven r =
     (let f = \<lfloor>r\<rfloor>; d = r - of_int f
      in if d < 1 / 2 then f else if 1 / 2 < d then f + 1 else if even f then f else f + 1)"

definition pow2 :: "int \<Rightarrow> real" where
  "pow2 k = (if 0 \<le> k then 2 ^ nat k else 1 / 2 ^ nat (- k))"

definition binExponent :: "real \<Rightarrow> int" where
  "binExponent x = \<lfloor>log 2 \<bar>x\<bar>\<rfloor>"

definition roundBinary :: "nat \<Rightarrow> int \<Rightarrow> real \<Rightarrow> real" where
  "roundBinary p emin x =
     (if x = 0 then 0
      else
        (let e = max (binExponent x) emin;
             q = pow2 (e - int p + 1)
         in of_int (roundHalfEven (x / q)) * q))"

text \<open>\<^verbatim>\<open>Math.fround\<close>: binary32 has 24 digits and the least exponent -126.\<close>

definition fround :: "real \<Rightarrow> real" where
  "fround x = roundBinary 24 (- 126) x"

text \<open>The value that a store into a \<^verbatim>\<open>Float32Array\<close> leaves in the array.\<close>

definition toFloat32 :: "jsval \<Rightarrow> jsval" where
  "toFloat32 v = (case v of Number x \<Rightarrow> Number (fround x) | _ \<Rightarrow> NaN)"

text \<open>
  \<^verbatim>\<open>Number(b)\<close> for a \<^verbatim>\<open>BigInt\<close> \<open>b\<close>, given as the number with the same value:
  binary64 has 53 digits and the least exponent -1022.
\<close>

definition bigintToNumber :: "jsval \<Rightarrow> jsval" where
  "bigintToNumber v = (case v of Number x \<Rightarrow> Number (roundBinary 53 (- 1022) x) | _ \<Rightarrow> NaN)"

subsection \<open>Arrays\<close>

text \<open>
  Reading an array at an index outside of it yields \<^verbatim>\<open>undefined\<close>. A write to a typed
  array outside of its bounds is ignored, and \<^verbatim>\<open>undefined\<close> is stored as \<^verbatim>\<open>NaN\<close>
  (\<open>aput\<close> is the write to the arrays of the voxels, whose element types hold the
  numbers written to them as they are); the plain arrays of the code (\<^verbatim>\<open>ixyz\<close>,
  \<^verbatim>\<open>perm\<close>, \<^verbatim>\<open>flip\<close>) are only written inside their bounds.
\<close>

definition aget :: "jsval list \<Rightarrow> int \<Rightarrow> jsval" where
  "aget xs i = (if 0 \<le> i \<and> i < int (length xs) then xs ! nat i else Undefined)"

definition aput :: "jsval list \<Rightarrow> int \<Rightarrow> jsval \<Rightarrow> jsval list" where
  "aput xs i v = (if 0 \<le> i \<and> i < int (length xs) then xs[nat i := toNumber v] else xs)"

text \<open>A write to a \<^verbatim>\<open>Float32Array\<close>, as the matrices of the matrix library are.\<close>

definition aput32 :: "jsval list \<Rightarrow> int \<Rightarrow> jsval \<Rightarrow> jsval list" where
  "aput32 xs i v = (if 0 \<le> i \<and> i < int (length xs) then xs[nat i := toFloat32 v] else xs)"

text \<open>
  \<^verbatim>\<open>mtx[i][j]\<close> on an array of rows. The affine of a parsed header always has four rows
  of four entries, so the row read never is \<^verbatim>\<open>undefined\<close>. On an array without the
  row \<open>i\<close> the source would raise a \<^verbatim>\<open>TypeError\<close>; the properties below that read
  an affine are stated for affines that have their rows.
\<close>

definition aget2 :: "jsval list list \<Rightarrow> int \<Rightarrow> int \<Rightarrow> jsval" where
  "aget2 m i j = (if 0 \<le> i \<and> i < int (length m) then aget (m ! nat i) j else Undefined)"

section \<open>The matrix library\<close>

text \<open>
  \<^verbatim>\<open>nvimage.js\<close> calls the gl-matrix library for 3x3 and 4x4 matrices, which are flat
  arrays of 9 and 16 numbers. The functions used are modelled after the library's documented
  behaviour. The arrays of the library are \<^verbatim>\<open>Float32Array\<close>s: every entry stored is
  rounded to binary32, and \<^verbatim>\<open>undefined\<close> is stored as \<^verbatim>\<open>NaN\<close>. The entries of a
  result are computed exactly and rounded when stored. The result array of a call is
  returned; the source passes it as the first
  argument \<^verbatim>\<open>out\<close>.
\<close>

definition fromValues :: "jsval list \<Rightarrow> jsval list" where
  "fromValues vs = map toFloat32 vs"

definition mat4_create :: "jsval list" where
  "mat4_create = [1, 0, 0, 0,  0, 1, 0, 0,  0, 0, 1, 0,  0, 0, 0, 1]"

definition mat4_identity :: "jsval list \<Rightarrow> jsval list" where
  "mat4_identity out = mat4_create"

definition mat4_clone :: "jsval list \<Rightarrow> jsval list" where
  "mat4_clone a = a"

definition mat4_copy :: "jsval list \<Rightarrow> jsval list \<Rightarrow> jsval list" where
  "mat4_copy out a = a"

definition mat4_transpose :: "jsval list \<Rightarrow> jsval list" where
  "mat4_transpose a =
     fromValues
       [aget a 0, aget a 4, aget a 8, aget a 12,
        aget a 1, aget a 5, aget a 9, aget a 13,
        aget a 2, aget a 6, aget a 10, aget a 14,
        aget a 3, aget a 7, aget a 11, aget a 15]"

definition vec4_transformMat4 :: "jsval list \<Rightarrow> jsval list \<Rightarrow> jsval list" where
  "vec4_transformMat4 a m =
     (let x = aget a 0; y = aget a 1; z = aget a 2; w = aget a 3
      in fromValues
        [aget m 0 * x + aget m 4 * y + aget m 8 * z + aget m 12 * w,
         aget m 1 * x + aget m 5 * y + aget m 9 * z + aget m 13 * w,
         aget m 2 * x + aget m 6 * y + aget m 10 * z + aget m 14 * w,
         aget m 3 * x + aget m 7 * y + aget m 11 * z + aget m 15 * w])"

text \<open>\<^verbatim>\<open>mat4.multiply(out, a, b)\<close>: entry \<open>4 r + c\<close> is the sum of \<open>b[4 r + k] * a[4 k + c]\<close>.\<close>

definition mat4_multiply :: "jsval list \<Rightarrow> jsval list \<Rightarrow> jsval list" where
  "mat4_multiply a b =
     fromValues
       (concat (map (\<lambda>r. map (\<lambda>c.
            aget b (4 * r) * aget a c + aget b (4 * r + 1) * aget a (4 + c)
          + aget b (4 * r + 2) * aget a (8 + c) + aget b (4 * r + 3) * aget a (12 + c))
          [0, 1, 2, 3]) [0, 1, 2, 3]))"

text \<open>
  \<^verbatim>\<open>mat4.invert(out, a)\<close> computes the inverse by cofactors. When the determinant is
  falsy (zero or \<^verbatim>\<open>NaN\<close>) it returns \<^verbatim>\<open>null\<close> and leaves \<^verbatim>\<open>out\<close> as it was.
\<close>

definition mat4_invert :: "jsval list \<Rightarrow> jsval list \<Rightarrow> jsval list" where
  "mat4_invert out a =
     (let a00 = aget a 0; a01 = aget a 1; a02 = aget a 2; a03 = aget a 3;
          a10 = aget a 4; a11 = aget a 5; a12 = aget a 6; a13 = aget a 7;
          a20 = aget a 8; a21 = aget a 9; a22 = aget a 10; a23 = aget a 11;
          a30 = aget a 12; a31 = aget a 13; a32 = aget a 14; a33 = aget a 15;
          b00 = a00 * a11 - a01 * a10;
          b01 = a00 * a12 - a02 * a10;
          b02 = a00 * a13 - a03 * a10;
          b03 = a01 * a12 - a02 * a11;
          b04 = a01 * a13 - a03 * a11;
          b05 = a02 * a13 - a03 * a12;
          b06 = a20 * a31 - a21 * a30;
          b07 = a20 * a32 - a22 * a30;
          b08 = a20 * a33 - a23 * a30;
          b09 = a21 * a32 - a22 * a31;
          b10 = a21 * a33 - a23 * a31;
          b11 = a22 * a33 - a23 * a32;
          det = b00 * b11 - b01 * b10 + b02 * b09 + b03 * b08 - b04 * b07 + b05 * b06
      in if falsy det then out
         else let det = 1 / det in
           fromValues
            [(a11 * b11 - a12 * b10 + a13 * b09) * det,
             (a02 * b10 - a01 * b11 - a03 * b09) * det,
             (a31 * b05 - a32 * b04 + a33 * b03) * det,
             (a22 * b04 - a21 * b05 - a23 * b03) * det,
             (a12 * b08 - a10 * b11 - a13 * b07) * det,
             (a00 * b11 - a02 * b08 + a03 * b07) * det,
             (a32 * b02 - a30 * b05 - a33 * b01) * det,
             (a20 * b05 - a22 * b02 + a23 * b01) * det,
             (a10 * b10 - a11 * b08 + a13 * b06) * det,
             (a01 * b08 - a00 * b10 - a03 * b06) * det,
             (a30 * b04 - a31 * b02 + a33 * b00) * det,
             (a21 * b02 - a20 * b04 - a23 * b00) * det,
             (a11 * b07 - a10 * b09 - a12 * b06) * det,
             (a00 * b09 - a01 * b07 + a02 * b06) * det,
             (a31 * b01 - a30 * b03 - a32 * b00) * det,
             (a20 * b03 - a21 * b01 + a22 * b00) * det])"

section \<open>The image object\<close>

text \<open>
  The header as the NIfTI parser returns it. \<open>dims\<close> and \<open>pixDims\<close> are arrays of eight
  numbers, \<open>affine\<close> is an array of four rows of four numbers.
\<close>

record nifti_hdr =
  dims :: "jsval list"
  pixDims :: "jsval list"
  affine :: "jsval list list"
  qform_code :: jsval
  sform_code :: jsval
  quatern_b :: jsval
  quatern_c :: jsval
  quatern_d :: jsval
  qoffset_x :: jsval
  qoffset_y :: jsval
  qoffset_z :: jsval
  scl_slope :: jsval
  scl_inter :: jsval
  hdr_cal_min :: jsval
  hdr_cal_max :: jsval
  datatypeCode :: int

text \<open>
  The fields of an \<^verbatim>\<open>NVImage\<close>. \<open>img\<close> is a reference to a typed array in a store
  of arrays (see the section on \<^verbatim>\<open>clone\<close>); a field that has not been assigned holds
  \<open>Undefined\<close> or the empty list. The field \<^verbatim>\<open>obliqueRAS\<close>, which only
  \<^verbatim>\<open>calculateOblique\<close> writes, is not part of the model.
\<close>

record nvimage =
  name :: string
  id' :: string
  colorMap :: string
  opacity :: jsval
  percentileFrac :: jsval
  ignoreZeroVoxels :: bool
  trustCalMinMax :: bool
  visible :: bool
  hdr :: nifti_hdr
  img :: nat
  mm000 :: "jsval list"
  mm100 :: "jsval list"
  mm010 :: "jsval list"
  mm001 :: "jsval list"
  dimsRAS :: "jsval list"
  pixDimsRAS :: "jsval list"
  toRAS :: "jsval list"
  matRAS :: "jsval list"
  cal_min :: jsval
  cal_max :: jsval
  robust_min :: jsval
  robust_max :: jsval
  global_min :: jsval
  global_max :: jsval

section \<open>calculateRAS\<close>

definition vox2mm :: "jsval list \<Rightarrow> jsval list \<Rightarrow> jsval list" where
  "vox2mm XYZ mtx =
     (let sform = mat4_clone mtx;
          sform = mat4_transpose sform;
          pos = fromValues [aget XYZ 0, aget XYZ 1, aget XYZ 2, 1];
          pos = vec4_transformMat4 pos sform;
          pos3 = fromValues [aget pos 0, aget pos 1, aget pos 2]
      in pos3)"

definition arrayEquals :: "int list \<Rightarrow> int list \<Rightarrow> bool" where
  "arrayEquals a b = (length a = length b \<and> list_all (\<lambda>(x, y). x = y) (zip a b))"

text \<open>The phases of \<^verbatim>\<open>calculateRAS\<close>, in the order of the source.\<close>

definition calculateRAS_absR :: "jsval list list \<Rightarrow> jsval list" where
  "calculateRAS_absR a =
     fromValues
       [Math_abs (aget2 a 0 0), Math_abs (aget2 a 0 1), Math_abs (aget2 a 0 2),
        Math_abs (aget2 a 1 0), Math_abs (aget2 a 1 1), Math_abs (aget2 a 1 2),
        Math_abs (aget2 a 2 0), Math_abs (aget2 a 2 1), Math_abs (aget2 a 2 2)]"

definition calculateRAS_ixyz :: "jsval list \<Rightarrow> int list" where
  "calculateRAS_ixyz absR =
     (let ixyz = [1, 1, 1];
          ixyz = (if gt (aget absR 3) (aget absR 0) then ixyz[0 := 2] else ixyz);
          ixyz = (if gt (aget absR 6) (aget absR 0) \<and> gt (aget absR 6) (aget absR 3)
                  then ixyz[0 := 3] else ixyz);
          ixyz = ixyz[1 := 1];
          ixyz =
            (if ixyz ! 0 = 1 then
               (if gt (aget absR 4) (aget absR 7) then ixyz[1 := 2] else ixyz[1 := 3])
             else if ixyz ! 0 = 2 then
               (if gt (aget absR 1) (aget absR 7) then ixyz[1 := 1] else ixyz[1 := 3])
             else
               (if gt (aget absR 1) (aget absR 4) then ixyz[1 := 1] else ixyz[1 := 2]));
          ixyz = ixyz[2 := 6 - ixyz ! 1 - ixyz ! 0]
      in ixyz)"

definition calculateRAS_perm :: "int list \<Rightarrow> int list" where
  "calculateRAS_perm ixyz =
     (let perm = [1, 2, 3];
          perm = perm[nat (ixyz ! 0 - 1) := 1];
          perm = perm[nat (ixyz ! 1 - 1) := 2];
          perm = perm[nat (ixyz ! 2 - 1) := 3]
      in perm)"

definition calculateRAS_rotM :: "jsval list list \<Rightarrow> jsval list" where
  "calculateRAS_rotM a =
     fromValues
       [aget2 a 0 0, aget2 a 0 1, aget2 a 0 2, aget2 a 0 3,
        aget2 a 1 0, aget2 a 1 1, aget2 a 1 2, aget2 a 1 3,
        aget2 a 2 0, aget2 a 2 1, aget2 a 2 2, aget2 a 2 3,
        0, 0, 0, 1]"

text \<open>
  \<^verbatim>\<open>for i < 3, for j < 3: R[i * 4 + j] = rotM[i * 4 + perm[j] - 1]\<close>, on a copy \<open>R\<close> of
  \<open>rotM\<close>.
\<close>

definition calculateRAS_R :: "jsval list \<Rightarrow> int list \<Rightarrow> jsval list" where
  "calculateRAS_R rotM perm =
     fold (\<lambda>i. fold (\<lambda>j R. aput32 R (i * 4 + j) (aget rotM (i * 4 + perm ! nat j - 1))) [0, 1, 2])
       [0, 1, 2] (mat4_copy mat4_create rotM)"

definition calculateRAS_flip :: "jsval list \<Rightarrow> int list" where
  "calculateRAS_flip R =
     (let flip = [0, 0, 0];
          flip = (if lt (aget R 0) 0 then flip[0 := 1] else flip);
          flip = (if lt (aget R 5) 0 then flip[1 := 1] else flip);
          flip = (if lt (aget R 10) 0 then flip[2 := 1] else flip)
      in flip)"

definition calculateRAS :: "nvimage \<Rightarrow> nvimage" where
  "calculateRAS this =
     (let a = affine (hdr this);
          header = hdr this;
          absR = calculateRAS_absR a;
          ixyz = calculateRAS_ixyz absR;
          perm = calculateRAS_perm ixyz;
          rotM = calculateRAS_rotM a;
          this = this\<lparr>mm000 := vox2mm [- Number (1 / 2), - Number (1 / 2), - Number (1 / 2)] rotM\<rparr>;
          this = this\<lparr>mm100 :=
            vox2mm [aget (dims header) 1 - Number (1 / 2), - Number (1 / 2), - Number (1 / 2)] rotM\<rparr>;
          this = this\<lparr>mm010 :=
            vox2mm [- Number (1 / 2), aget (dims header) 2 - Number (1 / 2), - Number (1 / 2)] rotM\<rparr>;
          this = this\<lparr>mm001 :=
            vox2mm [- Number (1 / 2), - Number (1 / 2), aget (dims header) 3 - Number (1 / 2)] rotM\<rparr>;
          R = calculateRAS_R rotM perm;
          flip = calculateRAS_flip R;
          this = this\<lparr>dimsRAS :=
            [aget (dims header) 0, aget (dims header) (perm ! 0),
             aget (dims header) (perm ! 1), aget (dims header) (perm ! 2)]\<rparr>;
          this = this\<lparr>pixDimsRAS :=
            [aget (pixDims header) 0, aget (pixDims header) (perm ! 0),
             aget (pixDims header) (perm ! 1), aget (pixDims header) (perm ! 2)]\<rparr>
      in if arrayEquals perm [1, 2, 3] \<and> arrayEquals flip [0, 0, 0] then
           this\<lparr>toRAS := mat4_create, matRAS := mat4_clone rotM\<rparr>
         else
           (let rotM = mat4_identity rotM;
                rotM = aput32 rotM (0 + 0 * 4) (Number (of_int (1 - flip ! 0 * 2)));
                rotM = aput32 rotM (1 + 1 * 4) (Number (of_int (1 - flip ! 1 * 2)));
                rotM = aput32 rotM (2 + 2 * 4) (Number (of_int (1 - flip ! 2 * 2)));
                rotM = aput32 rotM (3 + 0 * 4)
                         ((aget (dims header) (perm ! 0) - 1) * Number (of_int (flip ! 0)));
                rotM = aput32 rotM (3 + 1 * 4)
                         ((aget (dims header) (perm ! 1) - 1) * Number (of_int (flip ! 1)));
                rotM = aput32 rotM (3 + 2 * 4)
                         ((aget (dims header) (perm ! 2) - 1) * Number (of_int (flip ! 2)));
                residualR = mat4_create;
                residualR = mat4_invert residualR rotM;
                residualR = mat4_multiply residualR R;
                this = this\<lparr>matRAS := mat4_clone residualR\<rparr>;
                rotM = fromValues [0, 0, 0, 0, 0, 0, 0, 0, 0, 0, 0, 0, 0, 0, 0, 1];
                rotM = aput32 rotM (perm ! 0 - 1 + 0 * 4) (Number (of_int (- (flip ! 0) * 2 + 1)));
                rotM = aput32 rotM (perm ! 1 - 1 + 1 * 4) (Number (of_int (- (flip ! 1) * 2 + 1)));
                rotM = aput32 rotM (perm ! 2 - 1 + 2 * 4) (Number (of_int (- (flip ! 2) * 2 + 1)));
                rotM = aput32 rotM (3 + 0 * 4) (Number (of_int (flip ! 0)));
                rotM = aput32 rotM (3 + 1 * 4) (Number (of_int (flip ! 1)));
                rotM = aput32 rotM (3 + 2 * 4) (Number (of_int (flip ! 2)))
            in this\<lparr>toRAS := mat4_clone rotM\<rparr>))"


section \<open>The constructor\<close>

subsection \<open>Resolving the affine\<close>

text \<open>
  \<^verbatim>\<open>isAffineOK\<close>: the first pair of loops returns false at the first entry that is not
  a number; the second pair marks the rows \<open>iOK\<close> and columns \<open>jOK\<close> of the 3x3 block
  that hold a non-zero entry; the last loop returns false when a row or column is unmarked.
\<close>

definition isAffineOK :: "jsval list list \<Rightarrow> bool" where
  "isAffineOK mtx =
     (if list_ex (\<lambda>i. list_ex (\<lambda>j. isNaN (aget2 mtx i j)) [0, 1, 2, 3]) [0, 1, 2, 3] then False
      else
        (let ok = fold (\<lambda>i. fold (\<lambda>j (iOK, jOK).
                      if strictEq (aget2 mtx i j) 0 then (iOK, jOK)
                      else (iOK[nat i := True], jOK[nat j := True])) [0, 1, 2]) [0, 1, 2]
                    ([False, False, False, False], [False, False, False, False]);
             iOK = fst ok;
             jOK = snd ok
         in list_all (\<lambda>i. iOK ! i \<and> jOK ! i) [0, 1, 2]))"

text \<open>
  Writes to the plain arrays of the header. A write past the end of a plain array extends
  it. The affine has four rows, so the row of \<^verbatim>\<open>affine[i][j] = v\<close> exists.
\<close>

definition aset :: "jsval list \<Rightarrow> nat \<Rightarrow> jsval \<Rightarrow> jsval list" where
  "aset xs i v =
     (if i < length xs then xs[i := v]
      else xs @ replicate (i - length xs) Undefined @ [v])"

definition aset2 :: "jsval list list \<Rightarrow> nat \<Rightarrow> nat \<Rightarrow> jsval \<Rightarrow> jsval list list" where
  "aset2 m i j v = (if i < length m then m[i := aset (m ! i) j v] else m)"

definition quatern_R :: "nifti_hdr \<Rightarrow> jsval list list" where
  "quatern_R h =
     (let b = quatern_b h;
          c = quatern_c h;
          d = quatern_d h;
          a = Math_sqrt (1 - (Math_pow b 2 + Math_pow c 2 + Math_pow d 2))
      in [[a * a + b * b - c * c - d * d, 2 * b * c - 2 * a * d, 2 * b * d + 2 * a * c],
          [2 * b * c + 2 * a * d, a * a + c * c - b * b - d * d, 2 * c * d - 2 * a * b],
          [2 * b * d - 2 * a * c, 2 * c * d + 2 * a * b, a * a + d * d - c * c - b * b]])"

text \<open>The branch \<^verbatim>\<open>spatial transform based on QForm\<close>: the affine is overwritten in place.\<close>

definition affineFromQForm :: "nifti_hdr \<Rightarrow> nifti_hdr" where
  "affineFromQForm h =
     (let qfac = (if strictEq (aget (pixDims h) 0) 0 then 1 else aget (pixDims h) 0);
          R = quatern_R h;
          affine = affine h;
          affine = fold (\<lambda>ctrOut. fold (\<lambda>ctrIn affine.
                     (let v = aget2 R (int ctrOut) (int ctrIn) * aget (pixDims h) (int ctrIn + 1);
                          v = (if ctrIn = 2 then v * qfac else v)
                      in aset2 affine ctrOut ctrIn v)) [0, 1, 2]) [0, 1, 2] affine;
          affine = aset2 affine 0 3 (qoffset_x h);
          affine = aset2 affine 1 3 (qoffset_y h);
          affine = aset2 affine 2 3 (qoffset_z h)
      in h\<lparr>affine := affine\<rparr>)"

text \<open>The branch \<^verbatim>\<open>Defective NIfTI: spatial transform does not make sense\<close>.\<close>

definition affineFromPixDims :: "nifti_hdr \<Rightarrow> nifti_hdr" where
  "affineFromPixDims h =
     (let x = aget (pixDims h) 1;
          y = aget (pixDims h) 2;
          z = aget (pixDims h) 3;
          x = (if isNaN x \<or> strictEq x 0 then 1 else x);
          y = (if isNaN y \<or> strictEq y 0 then 1 else y);
          z = (if isNaN z \<or> strictEq z 0 then 1 else z);
          h = h\<lparr>pixDims := aset (pixDims h) 1 x\<rparr>;
          h = h\<lparr>pixDims := aset (pixDims h) 2 y\<rparr>;
          h = h\<lparr>pixDims := aset (pixDims h) 3 z\<rparr>;
          affine = [[x, 0, 0, 0], [0, y, 0, 0], [0, 0, z, 0], [0, 0, 0, 1]]
      in h\<lparr>affine := affine\<rparr>)"

text \<open>
  The statements of the constructor from the repair of \<^verbatim>\<open>scl_slope\<close> to the end of the
  QForm branch: the affine of the result is the candidate that is validated next.
\<close>

definition chooseAffine :: "bool \<Rightarrow> nifti_hdr \<Rightarrow> nifti_hdr" where
  "chooseAffine useQFormNotSForm h =
     (let h = (if isNaN (scl_slope h) \<or> strictEq (scl_slope h) 0 then h\<lparr>scl_slope := 1\<rparr> else h);
          h = (if isNaN (scl_inter h) then h\<lparr>scl_inter := 0\<rparr> else h);
          affineOK = isAffineOK (affine h)
      in if useQFormNotSForm \<or> \<not> affineOK \<or> gt (qform_code h) (sform_code h)
         then affineFromQForm h else h)"

text \<open>
  The affine-resolution step of the constructor, to the end of the
  \<^verbatim>\<open>defective affine\<close> branch. None of its statements throws.
\<close>

definition resolveAffine :: "bool \<Rightarrow> nifti_hdr \<Rightarrow> nifti_hdr" where
  "resolveAffine useQFormNotSForm h =
     (let h = chooseAffine useQFormNotSForm h;
          affineOK = isAffineOK (affine h)
      in if \<not> affineOK then affineFromPixDims h else h)"

text \<open>
  Well-formedness of an affine in the words of the specification: no entry is
  \<^verbatim>\<open>NaN\<close>, and no row and no column of the 3x3 block is all zero.
\<close>

definition wellFormed :: "jsval list list \<Rightarrow> bool" where
  "wellFormed m =
     (list_all (\<lambda>i. list_all (\<lambda>j. case aget2 m i j of Number r \<Rightarrow> True | _ \<Rightarrow> False)
          [0, 1, 2, 3]) [0, 1, 2, 3]
      \<and> list_all (\<lambda>i. list_ex (\<lambda>j. aget2 m i j \<noteq> Number 0) [0, 1, 2]) [0, 1, 2]
      \<and> list_all (\<lambda>j. list_ex (\<lambda>i. aget2 m i j \<noteq> Number 0) [0, 1, 2]) [0, 1, 2])"

subsection \<open>Typed arrays\<close>

text \<open>
  The voxel data reach the constructor as an \<^verbatim>\<open>ArrayBuffer\<close> that the \<^verbatim>\<open>switch\<close> on
  the datatype code views as a typed array. The model takes the elements of that view, as
  numbers, in place of the bytes. A new typed array is filled with zeros.
\<close>

datatype error = UnsupportedDatatype int

definition DT_UNSIGNED_CHAR :: int where "DT_UNSIGNED_CHAR = 2"
definition DT_SIGNED_SHORT :: int where "DT_SIGNED_SHORT = 4"
definition DT_SIGNED_INT :: int where "DT_SIGNED_INT = 8"
definition DT_FLOAT :: int where "DT_FLOAT = 16"
definition DT_DOUBLE :: int where "DT_DOUBLE = 64"
definition DT_RGB :: int where "DT_RGB = 128"
definition DT_INT8 :: int where "DT_INT8 = 256"
definition DT_UINT16 :: int where "DT_UINT16 = 512"
definition DT_UINT32 :: int where "DT_UINT32 = 768"
definition DT_INT64 :: int where "DT_INT64 = 1024"
definition DT_RGBA32 :: int where "DT_RGBA32 = 2304"

text \<open>
  The loop shared by the four widening cases:
  \<^verbatim>\<open>this.img = new T(vx); for (var i = 0; i < vx - 1; i++) this.img[i] = conv(src[i]);\<close>
  where \<open>conv\<close> is \<^verbatim>\<open>Number\<close> for the \<^verbatim>\<open>BigInt\<close>s of INT64 data and nothing
  for the other three.
\<close>

definition widen :: "(jsval \<Rightarrow> jsval) \<Rightarrow> jsval list \<Rightarrow> jsval list" where
  "widen conv src =
     (let vx = int (length src);
          img = replicate (length src) 0
      in fold (\<lambda>i img. aput img i (conv (aget src i))) (map int [0..<nat (vx - 1)]) img)"

definition NVImage_img :: "int \<Rightarrow> jsval list \<Rightarrow> error + (jsval list \<times> int)" where
  "NVImage_img code imgRaw =
     (if code = DT_UNSIGNED_CHAR then Inr (imgRaw, code)
      else if code = DT_SIGNED_SHORT then Inr (imgRaw, code)
      else if code = DT_FLOAT then Inr (imgRaw, code)
      else if code = DT_DOUBLE then Inr (imgRaw, code)
      else if code = DT_RGB then Inr (imgRaw, code)
      else if code = DT_UINT16 then Inr (imgRaw, code)
      else if code = DT_RGBA32 then Inr (imgRaw, code)
      else if code = DT_INT8 then Inr (widen (\<lambda>v. v) imgRaw, DT_SIGNED_SHORT)
      else if code = DT_UINT32 then Inr (widen (\<lambda>v. v) imgRaw, DT_DOUBLE)
      else if code = DT_SIGNED_INT then Inr (widen (\<lambda>v. v) imgRaw, DT_DOUBLE)
      else if code = DT_INT64 then Inr (widen bigintToNumber imgRaw, DT_DOUBLE)
      else Inl (UnsupportedDatatype code))"


section \<open>calMinMax\<close>

text \<open>
  The module \<^verbatim>\<open>cmaps\<close> is a table from colour map names to colour maps; of a colour
  map only the fields \<^verbatim>\<open>min\<close> and \<^verbatim>\<open>max\<close> are read (\<open>Undefined\<close> when the map
  does not have them). The table is a parameter of the model.
\<close>

record colormap =
  cm_min :: jsval
  cm_max :: jsval

text \<open>\<^verbatim>\<open>toLowerCase\<close> on the letters A to Z.\<close>

definition toLowerCase :: "string \<Rightarrow> string" where
  "toLowerCase s =
     map (\<lambda>c. let n = (of_char c :: nat) in if 65 \<le> n \<and> n \<le> 90 then char_of (n + 32) else c) s"

text \<open>
  The store of typed arrays: \<open>img\<close> of an image is an index into it. Reading through a
  reference that is not in the store does not occur.
\<close>

definition deref :: "jsval list list \<Rightarrow> nat \<Rightarrow> jsval list" where
  "deref st r = (if r < length st then st ! r else [])"

text \<open>\<^verbatim>\<open>intensityRaw2Scaled\<close> repairs a zero slope in the header it is given.\<close>

definition intensityRaw2Scaled :: "nifti_hdr \<Rightarrow> jsval \<Rightarrow> nifti_hdr \<times> jsval" where
  "intensityRaw2Scaled h raw =
     (let h = (if strictEq (scl_slope h) 0 then h\<lparr>scl_slope := 1\<rparr> else h)
      in (h, raw * scl_slope h + scl_inter h))"

text \<open>
  The body of the first loop of \<^verbatim>\<open>calMinMax\<close>, on the voxel \<open>v = this.img[i]\<close> and the
  variables \<open>(mn, mx, nZero, nNan)\<close>.
\<close>

definition scanStep :: "bool \<Rightarrow> jsval \<Rightarrow> jsval \<times> jsval \<times> nat \<times> nat \<Rightarrow> jsval \<times> jsval \<times> nat \<times> nat" where
  "scanStep ignoreZero v s =
     (case s of (mn, mx, nZero, nNan) \<Rightarrow>
        if isNaN v then (mn, mx, nZero, nNan + 1)
        else if strictEq v 0 then
          (if ignoreZero then (mn, mx, nZero + 1, nNan)
           else (Math_min v mn, Math_max v mx, nZero + 1, nNan))
        else (Math_min v mn, Math_max v mx, nZero, nNan))"

text \<open>\<^verbatim>\<open>let mn = this.img[0]; let mx = this.img[0]; ... for (let i = 0; i < nVox; i++) ...\<close>\<close>

definition scan :: "bool \<Rightarrow> jsval list \<Rightarrow> jsval \<times> jsval \<times> nat \<times> nat" where
  "scan ignoreZero buf = fold (scanStep ignoreZero) buf (aget buf 0, aget buf 0, 0, 0)"

text \<open>
  \<^verbatim>\<open>hist[k]++\<close>. The histogram has 1001 bins and the index is the result of
  \<^verbatim>\<open>Math.round\<close>. An index that is \<^verbatim>\<open>NaN\<close> or outside the bins would create a property
  of the array with the value \<^verbatim>\<open>NaN\<close>; in the additions that read the histogram
  afterwards such a property acts as a missing one (\<^verbatim>\<open>undefined\<close>), so the model leaves
  the histogram as it is.
\<close>

definition histInc :: "jsval list \<Rightarrow> jsval \<Rightarrow> jsval list" where
  "histInc hist k =
     (case k of
        Number r \<Rightarrow>
          (if 0 \<le> \<lfloor>r\<rfloor> \<and> \<lfloor>r\<rfloor> < int (length hist)
           then hist[nat \<lfloor>r\<rfloor> := aget hist \<lfloor>r\<rfloor> + 1] else hist)
      | _ \<Rightarrow> hist)"

text \<open>
  The two histogram loops run \<^verbatim>\<open>for (let i = 0; i <= nVox; i++)\<close>; the read at
  \<open>nVox\<close> is \<^verbatim>\<open>undefined\<close> and is skipped as not a number.
\<close>

definition histogram :: "bool \<Rightarrow> jsval list \<Rightarrow> jsval \<Rightarrow> jsval \<Rightarrow> jsval list" where
  "histogram ignoreZero buf mn scl =
     fold (\<lambda>i hist.
        (let v = aget buf i
         in if ignoreZero then
              (if strictEq v 0 then hist
               else if isNaN v then hist
               else histInc hist (Math_round ((v - mn) * scl)))
            else
              (if isNaN v then hist
               else histInc hist (Math_round ((v - mn) * scl)))))
       (map int [0..<length buf + 1]) (replicate 1001 0)"

text \<open>\<^verbatim>\<open>while (n < n2pct) { n += hist[lo]; lo++; }\<close>\<close>

function walkLo :: "jsval list \<Rightarrow> jsval \<Rightarrow> jsval \<Rightarrow> int \<Rightarrow> jsval \<times> int" where
  "walkLo hist n2pct n lo =
     (if lt n n2pct then walkLo hist n2pct (n + aget hist lo) (lo + 1) else (n, lo))"
  by pat_completeness auto
termination
proof (relation "measure (\<lambda>(hist, n2pct, n, lo).
          if lt n n2pct then 2 + nat (int (length hist) - lo) else 0)")
  show "wf (measure (\<lambda>(hist, n2pct, n, lo).
          if lt n n2pct then 2 + nat (int (length hist) - lo) else 0))"
    by simp
next
  fix hist :: "jsval list" and n2pct n :: jsval and lo :: int
  assume "lt n n2pct"
  then show "((hist, n2pct, n + aget hist lo, lo + 1), (hist, n2pct, n, lo))
      \<in> measure (\<lambda>(hist, n2pct, n, lo).
          if lt n n2pct then 2 + nat (int (length hist) - lo) else 0)"
    by (cases n; cases "aget hist lo")
       (auto simp: lt_def plus_jsval_def aget_def split: if_splits)
qed

text \<open>\<^verbatim>\<open>while (n < n2pct) { hi--; n += hist[hi]; }\<close>\<close>

function walkHi :: "jsval list \<Rightarrow> jsval \<Rightarrow> jsval \<Rightarrow> int \<Rightarrow> jsval \<times> int" where
  "walkHi hist n2pct n hi =
     (if lt n n2pct then walkHi hist n2pct (n + aget hist (hi - 1)) (hi - 1) else (n, hi))"
  by pat_completeness auto
termination
proof (relation "measure (\<lambda>(hist, n2pct, n, hi). if lt n n2pct then 2 + nat hi else 0)")
  show "wf (measure (\<lambda>(hist, n2pct, n, hi). if lt n n2pct then 2 + nat hi else 0))"
    by simp
next
  fix hist :: "jsval list" and n2pct n :: jsval and hi :: int
  assume "lt n n2pct"
  then show "((hist, n2pct, n + aget hist (hi - 1), hi - 1), (hist, n2pct, n, hi))
      \<in> measure (\<lambda>(hist, n2pct, n, hi). if lt n n2pct then 2 + nat hi else 0)"
    by (cases n; cases "aget hist (hi - 1)")
       (auto simp: lt_def plus_jsval_def aget_def split: if_splits)
qed

text \<open>
  The loop \<^verbatim>\<open>while (ok !== 0)\<close> that widens a range whose ends met in one bin. One
  call is one iteration; the result is \<open>None\<close> when the loop does not end.
\<close>

partial_function (option) expand :: "jsval list \<Rightarrow> int \<Rightarrow> int \<Rightarrow> int \<Rightarrow> (int \<times> int) option" where
  "expand hist nBins lo hi =
     (let ok = False;
          lo1 = (if lo > 0 then lo - 1 else lo);
          ok = (if lo > 0 \<and> gt (aget hist lo1) 0 then True else ok);
          hi1 = (if \<not> ok \<and> hi < nBins - 1 then hi + 1 else hi);
          ok = (if \<not> ok \<and> hi < nBins - 1 \<and> gt (aget hist hi1) 0 then True else ok);
          ok = (if lo1 = 0 \<and> hi1 = nBins - 1 then True else ok)
      in if ok then Some (lo1, hi1) else expand hist nBins lo1 hi1)"

text \<open>The part of \<^verbatim>\<open>calMinMax\<close> after the test for no variability.\<close>

definition robustRange :: "jsval list \<Rightarrow> nvimage \<Rightarrow> jsval \<Rightarrow> jsval \<Rightarrow> jsval \<Rightarrow> jsval \<Rightarrow> jsval
    \<Rightarrow> (nvimage \<times> jsval list) option" where
  "robustRange buf this mn mx mnScale mxScale n2pct =
     (let nBins = 1001;
          scl = (Number (of_int nBins) - 1) / (mx - mn);
          hist = histogram (ignoreZeroVoxels this) buf mn scl;
          lo = snd (walkLo hist n2pct 0 0) - 1;
          hi = snd (walkHi hist n2pct 0 nBins)
      in case (if lo = hi then expand hist nBins lo hi else Some (lo, hi)) of
           None \<Rightarrow> None
         | Some (lo, hi) \<Rightarrow>
            (let r2 = intensityRaw2Scaled (hdr this) (Number (of_int lo) / scl + mn);
                 r98 = intensityRaw2Scaled (fst r2) (Number (of_int hi) / scl + mn);
                 h = fst r98;
                 this = this\<lparr>hdr := h\<rparr>;
                 header = lt (hdr_cal_min h) (hdr_cal_max h) \<and> ge (hdr_cal_min h) mnScale
                            \<and> le (hdr_cal_max h) mxScale;
                 pct2 = (if header then hdr_cal_min h else snd r2);
                 pct98 = (if header then hdr_cal_max h else snd r98)
             in Some (this\<lparr>cal_min := pct2, cal_max := pct98, robust_min := pct2,
                        robust_max := pct98, global_min := mnScale, global_max := mxScale\<rparr>,
                      [pct2, pct98, mnScale, mxScale])))"

text \<open>\<^verbatim>\<open>calMinMax\<close> from \<^verbatim>\<open>//determine full range: min..max\<close> on.\<close>

definition scanPath :: "jsval list \<Rightarrow> nvimage \<Rightarrow> (nvimage \<times> jsval list) option" where
  "scanPath buf this =
     (let s = scan (ignoreZeroVoxels this) buf;
          mn = fst s;
          mx = fst (snd s);
          nZero = fst (snd (snd s));
          nNan = snd (snd (snd s));
          nVox = length buf;
          rmn = intensityRaw2Scaled (hdr this) mn;
          rmx = intensityRaw2Scaled (fst rmn) mx;
          mnScale = snd rmn;
          mxScale = snd rmx;
          this = this\<lparr>hdr := fst rmx\<rparr>;
          nZero = (if \<not> ignoreZeroVoxels this then 0 else nZero);
          nZero = nZero + nNan;
          n2pct = Math_round ((Number (of_nat nVox) - Number (of_nat nZero)) * percentileFrac this)
      in if lt n2pct 1 \<or> strictEq mn mx then
           Some (this\<lparr>cal_min := mnScale, cal_max := mxScale, robust_min := mnScale,
                      robust_max := mxScale, global_min := mnScale, global_max := mxScale\<rparr>,
                 [mnScale, mxScale, mnScale, mxScale])
         else robustRange buf this mn mx mnScale mxScale n2pct)"

definition calMinMax :: "(string \<Rightarrow> colormap option) \<Rightarrow> jsval list list \<Rightarrow> nvimage
    \<Rightarrow> (nvimage \<times> jsval list) option" where
  "calMinMax cmaps st this =
     (let h = hdr this
      in if trustCalMinMax this \<and> isFinite (hdr_cal_min h) \<and> isFinite (hdr_cal_max h)
            \<and> gt (hdr_cal_max h) (hdr_cal_min h) then
           Some (this\<lparr>cal_min := hdr_cal_min h, cal_max := hdr_cal_max h,
                      robust_min := hdr_cal_min h, robust_max := hdr_cal_max h,
                      global_min := hdr_cal_min h, global_max := hdr_cal_max h\<rparr>,
                 [hdr_cal_min h, hdr_cal_max h, hdr_cal_min h, hdr_cal_max h])
         else
           (let cm = colorMap this;
                cmMin = (case cmaps (toLowerCase cm) of Some c \<Rightarrow> cm_min c | None \<Rightarrow> 0);
                cmMax = (case cmaps (toLowerCase cm) of Some c \<Rightarrow> cm_max c | None \<Rightarrow> 0)
            in if \<not> strictEq cmMin cmMax then
                 Some (this\<lparr>cal_min := cmMin, cal_max := cmMax, robust_min := cmMin,
                            robust_max := cmMax\<rparr>,
                       [cmMin, cmMax, cmMin, cmMax])
               else scanPath (deref st (img this)) this))"


section \<open>Construction, clone and zeroImage\<close>

text \<open>
  A header whose fields are all unassigned stands for \<^verbatim>\<open>this.hdr\<close> before it is set.
\<close>

definition noHdr :: nifti_hdr where
  "noHdr = \<lparr>dims = [], pixDims = [], affine = [], qform_code = Undefined,
     sform_code = Undefined, quatern_b = Undefined, quatern_c = Undefined,
     quatern_d = Undefined, qoffset_x = Undefined, qoffset_y = Undefined,
     qoffset_z = Undefined, scl_slope = Undefined, scl_inter = Undefined,
     hdr_cal_min = Undefined, hdr_cal_max = Undefined, datatypeCode = 0\<rparr>"

text \<open>
  The constructor up to \<^verbatim>\<open>if (!dataBuffer) return\<close>. The identifier that
  \<^verbatim>\<open>uuidv4()\<close> draws is the argument \<open>uuid\<close>.
\<close>

definition NVImage_fields :: "string \<Rightarrow> string \<Rightarrow> string \<Rightarrow> jsval \<Rightarrow> bool \<Rightarrow> jsval \<Rightarrow> bool \<Rightarrow> bool
    \<Rightarrow> nvimage" where
  "NVImage_fields uuid nm cmap opac trust pfrac ignoreZero vis =
     \<lparr>name = nm, id' = uuid, colorMap = cmap,
      opacity = (if gt opac 1 then 1 else opac),
      percentileFrac = pfrac, ignoreZeroVoxels = ignoreZero, trustCalMinMax = trust,
      visible = vis, hdr = noHdr, img = 0,
      mm000 = [], mm100 = [], mm010 = [], mm001 = [], dimsRAS = [], pixDimsRAS = [],
      toRAS = [], matRAS = [],
      cal_min = Undefined, cal_max = Undefined, robust_min = Undefined,
      robust_max = Undefined, global_min = Undefined, global_max = Undefined\<rparr>"

text \<open>\<^verbatim>\<open>new NVImage()\<close> with every argument at its default.\<close>

definition NVImage_default :: "string \<Rightarrow> nvimage" where
  "NVImage_default uuid =
     NVImage_fields uuid [] ''gray'' 1 True (Number (2 / 100)) False True"

text \<open>
  The constructor on a data buffer: \<open>h\<close> is the header read from the buffer and
  \<open>imgRaw\<close> the typed view of its voxels. The new typed array of the image is added to the
  store. The result is \<open>None\<close> if \<^verbatim>\<open>calMinMax\<close> does not return, \<open>Inl\<close> if the
  datatype is not supported.
\<close>

definition NVImage :: "(string \<Rightarrow> colormap option) \<Rightarrow> jsval list list \<Rightarrow> string \<Rightarrow> string \<Rightarrow> string
    \<Rightarrow> jsval \<Rightarrow> bool \<Rightarrow> jsval \<Rightarrow> bool \<Rightarrow> bool \<Rightarrow> bool \<Rightarrow> nifti_hdr \<Rightarrow> jsval list
    \<Rightarrow> (error + jsval list list \<times> nvimage) option" where
  "NVImage cmaps st uuid nm cmap opac trust pfrac ignoreZero vis useQFormNotSForm h imgRaw =
     (let this = NVImage_fields uuid nm cmap opac trust pfrac ignoreZero vis;
          h = resolveAffine useQFormNotSForm h
      in case NVImage_img (datatypeCode h) imgRaw of
           Inl e \<Rightarrow> Some (Inl e)
         | Inr (arr, code) \<Rightarrow>
            (let this = this\<lparr>hdr := h\<lparr>datatypeCode := code\<rparr>, img := length st\<rparr>;
                 st = st @ [arr];
                 this = calculateRAS this
             in case calMinMax cmaps st this of
                  None \<Rightarrow> None
                | Some (this, r) \<Rightarrow> Some (Inr (st, this))))"

text \<open>
  \<^verbatim>\<open>clone\<close>: \<^verbatim>\<open>Object.assign({}, this.hdr)\<close> is a new header object with the same
  fields and \<^verbatim>\<open>this.img.slice()\<close> a new typed array with the same elements, at a new
  place in the store.
\<close>

definition clone :: "(string \<Rightarrow> colormap option) \<Rightarrow> string \<Rightarrow> jsval list list \<Rightarrow> nvimage
    \<Rightarrow> (jsval list list \<times> nvimage) option" where
  "clone cmaps uuid st this =
     (let clonedImage = NVImage_default uuid;
          clonedImage = clonedImage\<lparr>id' := id' this\<rparr>;
          clonedImage = clonedImage\<lparr>hdr := hdr this\<rparr>;
          clonedImage = clonedImage\<lparr>img := length st\<rparr>;
          st = st @ [deref st (img this)];
          clonedImage = calculateRAS clonedImage
      in case calMinMax cmaps st clonedImage of
           None \<Rightarrow> None
         | Some (clonedImage, r) \<Rightarrow> Some (st, clonedImage))"

text \<open>\<^verbatim>\<open>this.img.fill(0)\<close> overwrites the array that \<open>img\<close> refers to.\<close>

definition zeroImage :: "jsval list list \<Rightarrow> nvimage \<Rightarrow> jsval list list" where
  "zeroImage st this =
     (if img this < length st then st[img this := replicate (length (st ! img this)) 0] else st)"

definition zerosLike :: "(string \<Rightarrow> colormap option) \<Rightarrow> string \<Rightarrow> jsval list list \<Rightarrow> nvimage
    \<Rightarrow> (jsval list list \<times> nvimage) option" where
  "zerosLike cmaps uuid st nvImage =
     (case clone cmaps uuid st nvImage of
        None \<Rightarrow> None
      | Some (st, zeroClone) \<Rightarrow> Some (zeroImage st zeroClone, zeroClone))"

section \<open>The render shader\<close>

text \<open>
  The fragment shader \<^verbatim>\<open>fragRenderShader\<close> computes with GLSL floats, modelled as exact
  reals. A \<^verbatim>\<open>vec3\<close> and a \<^verbatim>\<open>vec4\<close> are records of their components; the fourth
  component of a \<^verbatim>\<open>vec4\<close> is written \<open>.a\<close> in the source.
\<close>

record vec3 =
  x3 :: real
  y3 :: real
  z3 :: real

record vec4 =
  vx :: real
  vy :: real
  vz :: real
  va :: real

definition xyz :: "vec4 \<Rightarrow> vec3" where
  "xyz v = \<lparr>x3 = vx v, y3 = vy v, z3 = vz v\<rparr>"

definition mkVec4 :: "vec3 \<Rightarrow> real \<Rightarrow> vec4" where
  "mkVec4 v w = \<lparr>vx = x3 v, vy = y3 v, vz = z3 v, va = w\<rparr>"

definition dot :: "vec3 \<Rightarrow> vec3 \<Rightarrow> real" where
  "dot u v = x3 u * x3 v + y3 u * y3 v + z3 u * z3 v"

definition add3 :: "vec3 \<Rightarrow> vec3 \<Rightarrow> vec3" where
  "add3 u v = \<lparr>x3 = x3 u + x3 v, y3 = y3 u + y3 v, z3 = z3 u + z3 v\<rparr>"

definition scale3 :: "vec3 \<Rightarrow> real \<Rightarrow> vec3" where
  "scale3 v k = \<lparr>x3 = x3 v * k, y3 = y3 v * k, z3 = z3 v * k\<rparr>"

definition subScalar3 :: "vec3 \<Rightarrow> real \<Rightarrow> vec3" where
  "subScalar3 v k = \<lparr>x3 = x3 v - k, y3 = y3 v - k, z3 = z3 v - k\<rparr>"

definition add4 :: "vec4 \<Rightarrow> vec4 \<Rightarrow> vec4" where
  "add4 u v = \<lparr>vx = vx u + vx v, vy = vy u + vy v, vz = vz u + vz v, va = va u + va v\<rparr>"

definition scale4 :: "real \<Rightarrow> vec4 \<Rightarrow> vec4" where
  "scale4 k v = \<lparr>vx = k * vx v, vy = k * vy v, vz = k * vz v, va = k * va v\<rparr>"

text \<open>
  \<^verbatim>\<open>applyClip\<close> has two \<^verbatim>\<open>inout\<close> parameters. The model returns the value of the
  function, the sample position and the length, in this order; \<open>clipPlane\<close> is the uniform.
\<close>

definition applyClip :: "vec4 \<Rightarrow> vec3 \<Rightarrow> vec4 \<Rightarrow> real \<Rightarrow> vec4 \<times> vec4 \<times> real" where
  "applyClip clipPlane dir samplePos len =
     (let cdot = dot dir (xyz clipPlane)
      in if va clipPlane > 1 \<or> cdot = 0 then (samplePos, samplePos, len)
         else
           (let frontface = (cdot > 0);
                clipThick = 2;
                dis = (- va clipPlane - dot (xyz clipPlane) (subScalar3 (xyz samplePos) (1 / 2)))
                        / cdot;
                disBackFace = (- (va clipPlane - clipThick)
                        - dot (xyz clipPlane) (subScalar3 (xyz samplePos) (1 / 2))) / cdot
            in if (frontface \<and> dis \<ge> len) \<or> (\<not> frontface \<and> dis \<le> 0) then
                 (let samplePos = samplePos\<lparr>va := len + 1\<rparr>
                  in (samplePos, samplePos, len))
               else
                 (let dis = (if frontface then max 0 dis else dis);
                      samplePos = (if frontface
                         then mkVec4 (add3 (xyz samplePos) (scale3 dir dis)) dis else samplePos);
                      len = (if frontface then min disBackFace len else len);
                      len = (if \<not> frontface then min dis len else len);
                      disBackFace = (if \<not> frontface then max 0 disBackFace else disBackFace);
                      samplePos = (if \<not> frontface
                         then mkVec4 (add3 (xyz samplePos) (scale3 dir disBackFace)) disBackFace
                         else samplePos)
                  in (samplePos, samplePos, len))))"

text \<open>
  The variables of the compositing loop of \<^verbatim>\<open>main\<close> (the loop after
  \<^verbatim>\<open>samplePos += deltaDir * ran; //jitter ray\<close>).
\<close>

record ray =
  samplePos :: vec4
  colAcc :: vec4
  firstHit :: vec4
  backNearest :: real

definition earlyTermination :: real where
  "earlyTermination = 95 / 100"

text \<open>
  One run of the loop body. \<open>volume\<close> is the texture lookup \<^verbatim>\<open>texture(volume, p)\<close>.
  The second component tells whether the body left by \<^verbatim>\<open>break\<close>.
\<close>

definition compositeStep :: "(vec3 \<Rightarrow> vec4) \<Rightarrow> real \<Rightarrow> vec4 \<Rightarrow> ray \<Rightarrow> ray \<times> bool" where
  "compositeStep volume opacityCorrection deltaDir s =
     (let colorSample = volume (xyz (samplePos s));
          s = s\<lparr>samplePos := add4 (samplePos s) deltaDir\<rparr>
      in if va colorSample < 1 / 100 then (s, False)
         else
           (let s = (if va (firstHit s) = 0 then s\<lparr>firstHit := samplePos s\<rparr> else s);
                s = s\<lparr>backNearest := min (backNearest s) (va (samplePos s))\<rparr>;
                colorSample = colorSample\<lparr>va := 1 - (1 - va colorSample) powr opacityCorrection\<rparr>;
                colorSample = colorSample\<lparr>vx := vx colorSample * va colorSample,
                                           vy := vy colorSample * va colorSample,
                                           vz := vz colorSample * va colorSample\<rparr>;
                s = s\<lparr>colAcc := add4 (scale4 (1 - va (colAcc s)) colorSample) (colAcc s)\<rparr>
            in (s, va (colAcc s) > earlyTermination)))"

text \<open>\<^verbatim>\<open>while (samplePos.a <= len) { ... }\<close>; \<open>None\<close> when the loop does not end.\<close>

partial_function (option) compositeLoop :: "(vec3 \<Rightarrow> vec4) \<Rightarrow> real \<Rightarrow> vec4 \<Rightarrow> real \<Rightarrow> ray
    \<Rightarrow> ray option" where
  "compositeLoop volume opacityCorrection deltaDir len s =
     (if va (samplePos s) \<le> len then
        (let r = compositeStep volume opacityCorrection deltaDir s
         in if snd r then Some (fst r)
            else compositeLoop volume opacityCorrection deltaDir len (fst r))
      else Some s)"

text \<open>
  The base pass of \<^verbatim>\<open>main\<close> from \<^verbatim>\<open>vec4 colAcc = vec4(0.0,0.0,0.0,0.0)\<close> to
  \<^verbatim>\<open>fColor = colAcc\<close>: \<open>samplePos\<close> is the position the fast pass has left, \<open>ran'\<close> the
  jitter \<^verbatim>\<open>ran\<close> of the fragment. The result is \<open>fColor\<close> and the first hit, from which the depth
  of the fragment is computed.
\<close>

definition basePass :: "(vec3 \<Rightarrow> vec4) \<Rightarrow> real \<Rightarrow> real \<Rightarrow> vec4 \<Rightarrow> real \<Rightarrow> real \<Rightarrow> vec4
    \<Rightarrow> (vec4 \<times> vec4) option" where
  "basePass volume backOpacity opacityCorrection deltaDir len ran' samplePos0 =
     (let colAcc0 = \<lparr>vx = 0, vy = 0, vz = 0, va = 0\<rparr>;
          s = \<lparr>samplePos = add4 samplePos0 (scale4 ran' deltaDir), colAcc = colAcc0,
               firstHit = colAcc0, backNearest = len\<rparr>
      in case compositeLoop volume opacityCorrection deltaDir len s of
           None \<Rightarrow> None
         | Some s \<Rightarrow>
            (let acc = colAcc s;
                 acc = acc\<lparr>va := (va acc / earlyTermination) * backOpacity\<rparr>
             in Some (acc, firstHit s)))"


section \<open>Auxiliary predicates\<close>

text \<open>A matrix as the header holds it: four rows of four entries, none of them missing.\<close>

definition numberMatrix :: "jsval list list \<Rightarrow> bool" where
  "numberMatrix m =
     (length m = 4 \<and> list_all (\<lambda>r. length r = 4 \<and> list_all (\<lambda>v. v \<noteq> Undefined) r) m)"

text \<open>A voxel spacing, with 1 in place of a spacing that is \<^verbatim>\<open>NaN\<close> or zero.\<close>

definition spacingOr1 :: "jsval \<Rightarrow> jsval" where
  "spacingOr1 v = (if isNaN v \<or> strictEq v 0 then 1 else v)"



text \<open>A volume texture that has the same colour everywhere.\<close>

definition uniformVolume :: "vec4 \<Rightarrow> vec3 \<Rightarrow> vec4" where
  "uniformVolume c p = c"

text \<open>The transparent black \<^verbatim>\<open>vec4(0.0,0.0,0.0,0.0)\<close> that the accumulator starts from.\<close>

definition zero4 :: vec4 where
  "zero4 = \<lparr>vx = 0, vy = 0, vz = 0, va = 0\<rparr>"

section \<open>Properties\<close>

subsection \<open>Arithmetic on numbers\<close>

lemma Number_plus [simp]: "Number x + Number y = Number (x + y)"
  by (simp add: plus_jsval_def)

lemma Number_minus [simp]: "Number x - Number y = Number (x - y)"
  by (simp add: minus_jsval_def)

lemma Number_times [simp]: "Number x * Number y = Number (x * y)"
  by (simp add: times_jsval_def)

lemma Number_uminus [simp]: "- Number x = Number (- x)"
  by (simp add: uminus_jsval_def)

lemma zero_Number [simp]: "(0::jsval) = Number 0"
  by (simp add: zero_jsval_def)

lemma one_Number [simp]: "(1::jsval) = Number 1"
  by (simp add: one_jsval_def)

lemma numeral_jsval [simp]: "(numeral n :: jsval) = Number (numeral n)"
proof (induction n)
  case One
  show ?case by (simp add: one_jsval_def)
next
  case (Bit0 n)
  have "(numeral (num.Bit0 n) :: jsval) = Number (numeral n) + Number (numeral n)"
    by (simp only: numeral_Bit0 Bit0)
  also have "\<dots> = Number (numeral (num.Bit0 n))"
    by (simp only: Number_plus numeral_Bit0)
  finally show ?case .
next
  case (Bit1 n)
  have "(numeral (num.Bit1 n) :: jsval) = Number (numeral n) + Number (numeral n) + Number 1"
    by (simp only: numeral_Bit1 Bit1 one_jsval_def)
  also have "\<dots> = Number (numeral (num.Bit1 n))"
    by (simp only: Number_plus numeral_Bit1)
  finally show ?case .
qed

subsection \<open>Rounding\<close>

lemma roundHalfEven_of_int [simp]: "roundHalfEven (of_int k) = k"
  by (simp add: roundHalfEven_def)

lemma pow2_powr: "pow2 k = 2 powr of_int k"
  by (simp add: pow2_def powr_int)

lemma pow2_pos [simp]: "0 < pow2 k"
  by (simp add: pow2_def)

lemma pow2_neq0 [simp]: "pow2 k \<noteq> 0"
  by (simp add: pow2_def)

lemma pow2_mono: "j \<le> k \<Longrightarrow> pow2 j \<le> pow2 k"
  by (simp add: pow2_powr)

lemma pow2_strict: "pow2 j < pow2 k \<Longrightarrow> j < k"
  by (simp add: pow2_powr)

lemma binExponent_iff:
  "x \<noteq> 0 \<Longrightarrow> (binExponent x = k) = (pow2 k \<le> \<bar>x\<bar> \<and> \<bar>x\<bar> < pow2 (k + 1))"
  unfolding binExponent_def pow2_powr
  by (rule floor_log_eq_powr_iff) simp_all

lemma roundBinary_of_int:
  assumes p: "0 < p" and emin: "emin \<le> 0" and n: "\<bar>n\<bar> \<le> 2 ^ p"
  shows "roundBinary p emin (of_int n) = of_int n"
proof (cases "n = 0")
  case True
  then show ?thesis by (simp add: roundBinary_def)
next
  case False
  define e where "e = binExponent (of_int n)"
  have x0: "(of_int n :: real) \<noteq> 0"
    using False by simp
  have b: "pow2 e \<le> \<bar>of_int n\<bar>" "\<bar>of_int n :: real\<bar> < pow2 (e + 1)"
    using binExponent_iff [OF x0, of e] by (simp_all add: e_def)
  have "1 \<le> \<bar>n\<bar>"
    using False by simp
  then have "(1::real) \<le> of_int \<bar>n\<bar>"
    by (simp only: of_int_1_le_iff)
  then have "1 \<le> \<bar>of_int n :: real\<bar>"
    by simp
  with b(2) have "pow2 0 < pow2 (e + 1)"
    by (simp add: pow2_def)
  then have e0: "0 \<le> e"
    using pow2_strict [of 0 "e + 1"] by simp
  have "(of_int \<bar>n\<bar> :: real) \<le> of_int (2 ^ p)"
    using n by (simp only: of_int_le_iff)
  then have np: "\<bar>of_int n :: real\<bar> \<le> 2 ^ p"
    by simp
  have "pow2 e \<le> 2 ^ p"
    using b(1) np by simp
  then have "2 ^ nat e \<le> (2::real) ^ p"
    using e0 by (simp add: pow2_def)
  then have ep: "e \<le> int p"
    using e0 by simp
  have m: "max e emin = e"
    using e0 emin by simp
  have "\<exists>k. (of_int n :: real) / pow2 (e - int p + 1) = of_int k"
  proof (cases "e = int p")
    case True
    then have "pow2 e = 2 ^ p"
      by (simp add: pow2_def)
    with b(1) np have "\<bar>of_int n :: real\<bar> = 2 ^ p"
      by simp
    then have "(of_int \<bar>n\<bar> :: real) = of_int (2 ^ p)"
      by simp
    then have "\<bar>n\<bar> = 2 ^ p"
      by (simp only: of_int_eq_iff)
    then have "n = 2 ^ p \<or> n = - (2 ^ p)"
      by linarith
    moreover obtain p' where "p = Suc p'"
      using p by (cases p) simp_all
    ultimately have "(of_int n :: real) / 2 = of_int (2 ^ p') \<or> (of_int n :: real) / 2 = of_int (- (2 ^ p'))"
      by auto
    then have "\<exists>k. (of_int n :: real) / 2 = of_int k"
      by blast
    moreover have "pow2 (e - int p + 1) = 2"
      unfolding True by (simp add: pow2_def)
    ultimately show ?thesis
      by simp
  next
    case False
    with ep have lt: "e - int p + 1 \<le> 0"
      by simp
    show ?thesis
    proof (cases "e - int p + 1 = 0")
      case True
      then show ?thesis
        by (simp add: pow2_def)
    next
      case False
      with lt have "pow2 (e - int p + 1) = 1 / 2 ^ nat (- (e - int p + 1))"
        by (simp add: pow2_def)
      then have "(of_int n :: real) / pow2 (e - int p + 1) = of_int (n * 2 ^ nat (- (e - int p + 1)))"
        by simp
      then show ?thesis ..
    qed
  qed
  then obtain k where k: "(of_int n :: real) / pow2 (e - int p + 1) = of_int k"
    by blast
  have "roundBinary p emin (of_int n) = of_int k * pow2 (e - int p + 1)"
    using x0 by (simp add: roundBinary_def Let_def e_def [symmetric] m k)
  also have "\<dots> = of_int n"
    unfolding k [symmetric] by simp
  finally show ?thesis .
qed

lemma roundBinary_eval:
  assumes "pow2 e \<le> \<bar>x\<bar>" and "\<bar>x\<bar> < pow2 (e + 1)"
  shows "roundBinary p emin x
     = of_int (roundHalfEven (x / pow2 (max e emin - int p + 1))) * pow2 (max e emin - int p + 1)"
proof -
  have "x \<noteq> 0"
    using assms(1) pow2_pos [of e] by (cases "x = 0") simp_all
  moreover from this have "binExponent x = e"
    using assms by (simp add: binExponent_iff)
  ultimately show ?thesis
    by (simp add: roundBinary_def Let_def)
qed

lemma fround_of_int: "\<bar>n\<bar> \<le> 16777216 \<Longrightarrow> fround (of_int n) = of_int n"
  unfolding fround_def by (rule roundBinary_of_int) simp_all

lemma fround_0 [simp]: "fround 0 = 0"
  by (simp add: fround_def roundBinary_def)

lemma fround_1 [simp]: "fround 1 = 1"
  using fround_of_int [of 1] by simp

lemma fround_numeral [simp]:
  "numeral k \<le> (16777216::int) \<Longrightarrow> fround (numeral k) = numeral k"
  using fround_of_int [of "numeral k"] by simp

lemma fround_neg_numeral [simp]:
  "numeral k \<le> (16777216::int) \<Longrightarrow> fround (- numeral k) = - numeral k"
  using fround_of_int [of "- numeral k"] by simp

lemma toFloat32_simps [simp]:
  "toFloat32 (Number x) = Number (fround x)" "toFloat32 NaN = NaN" "toFloat32 Undefined = NaN"
  by (simp_all add: toFloat32_def)

lemma bigintToNumber_numeral [simp]:
  "numeral k \<le> (9007199254740992::int)
     \<Longrightarrow> bigintToNumber (Number (numeral k)) = Number (numeral k)"
  using roundBinary_of_int [of 53 "- 1022" "numeral k"] by (simp add: bigintToNumber_def)

lemma bigintToNumber_1 [simp]: "bigintToNumber (Number 1) = Number 1"
  using roundBinary_of_int [of 53 "- 1022" 1] by (simp add: bigintToNumber_def)

text \<open>The number 0.1 is not a binary32 number: its neighbour is 13421773 / 2 ^ 27.\<close>

lemma fround_tenth: "fround (1 / 10) = 13421773 / 134217728"
proof -
  have "roundBinary 24 (- 126) (1 / 10)
     = of_int (roundHalfEven ((1 / 10) / pow2 (max (- 4) (- 126) - int 24 + 1)))
         * pow2 (max (- 4) (- 126) - int 24 + 1)"
    by (rule roundBinary_eval) (simp_all add: pow2_def)
  also have "pow2 (max (- 4) (- 126) - int 24 + 1) = 1 / 134217728"
    by (simp add: pow2_def)
  also have "roundHalfEven ((1 / 10) / (1 / 134217728)) = 13421773"
    by (simp add: roundHalfEven_def Let_def)
  finally show ?thesis by (simp add: fround_def)
qed

lemma fround_tenth_again: "fround (13421773 / 134217728) = 13421773 / 134217728"
proof -
  have "roundBinary 24 (- 126) (13421773 / 134217728)
     = of_int (roundHalfEven ((13421773 / 134217728) / pow2 (max (- 4) (- 126) - int 24 + 1)))
         * pow2 (max (- 4) (- 126) - int 24 + 1)"
    by (rule roundBinary_eval) (simp_all add: pow2_def)
  also have "pow2 (max (- 4) (- 126) - int 24 + 1) = 1 / 134217728"
    by (simp add: pow2_def)
  also have "roundHalfEven ((13421773 / 134217728) / (1 / 134217728)) = 13421773"
    by (simp add: roundHalfEven_def Let_def)
  finally show ?thesis by (simp add: fround_def)
qed

subsection \<open>The axis permutation and the reflections\<close>

lemma ixyz_cases:
  "calculateRAS_ixyz absR
     \<in> {[1, 2, 3], [1, 3, 2], [2, 1, 3], [2, 3, 1], [3, 1, 2], [3, 2, 1]}"
  unfolding calculateRAS_ixyz_def by (simp add: Let_def)

lemma perm_cases:
  "calculateRAS_perm (calculateRAS_ixyz absR)
     \<in> {[1, 2, 3], [1, 3, 2], [2, 1, 3], [2, 3, 1], [3, 1, 2], [3, 2, 1]}"
  using ixyz_cases [of absR] unfolding calculateRAS_perm_def by (auto simp: Let_def)

lemma flip_cases:
  "length (calculateRAS_flip R) = 3 \<and> list_all (\<lambda>f. f = 0 \<or> f = 1) (calculateRAS_flip R)"
  unfolding calculateRAS_flip_def by (simp add: Let_def)

text \<open>
  Claim C2. For every well-formed affine the array \<open>perm\<close> that \<^verbatim>\<open>calculateRAS\<close>
  computes holds each of 1, 2 and 3 exactly once, and each of the three entries of
  \<open>flip\<close> is 0 or 1. (The comparisons decide this on their own: the proof makes no use
  of the entries of the affine.)
\<close>

theorem calculateRAS_perm_flip:
  fixes a :: "jsval list list"
  defines "perm \<equiv> calculateRAS_perm (calculateRAS_ixyz (calculateRAS_absR a))"
  defines "flip \<equiv> calculateRAS_flip (calculateRAS_R (calculateRAS_rotM a) perm)"
  assumes "wellFormed a"
  shows "length perm = 3 \<and> distinct perm \<and> set perm = {1, 2, 3}
       \<and> length flip = 3 \<and> list_all (\<lambda>f. f = 0 \<or> f = 1) flip"
proof -
  have "perm \<in> {[1, 2, 3], [1, 3, 2], [2, 1, 3], [2, 3, 1], [3, 1, 2], [3, 2, 1]}"
    unfolding perm_def by (rule perm_cases)
  then have "length perm = 3 \<and> distinct perm \<and> set perm = {1, 2, 3}"
    by auto
  then show ?thesis
    unfolding flip_def using flip_cases by blast
qed

theorem calculateRAS_perm_flip_witness:
  "(let a = [[0, 0, - 2, 10], [3, 0, 0, 20], [0, - 4, 0, 30], [0, 0, 0, 1]];
        perm = calculateRAS_perm (calculateRAS_ixyz (calculateRAS_absR a));
        flip = calculateRAS_flip (calculateRAS_R (calculateRAS_rotM a) perm)
    in wellFormed a \<and> perm = [3, 1, 2] \<and> flip = [1, 0, 1]
       \<and> length perm = 3 \<and> distinct perm \<and> set perm = {1, 2, 3}
       \<and> length flip = 3 \<and> list_all (\<lambda>f. f = 0 \<or> f = 1) flip)"
proof -
  define a :: "jsval list list"
    where "a = [[0, 0, - 2, 10], [3, 0, 0, 20], [0, - 4, 0, 30], [0, 0, 0, 1]]"
  have w: "wellFormed a"
    by (simp add: a_def wellFormed_def aget2_def aget_def)
  have p: "calculateRAS_perm (calculateRAS_ixyz (calculateRAS_absR a)) = [3, 1, 2]"
    by (simp add: a_def calculateRAS_perm_def calculateRAS_ixyz_def calculateRAS_absR_def
        fromValues_def aget2_def aget_def Math_abs_def gt_def Let_def)
  have f: "calculateRAS_flip (calculateRAS_R (calculateRAS_rotM a) [3, 1, 2]) = [1, 0, 1]"
    by (simp add: a_def calculateRAS_flip_def calculateRAS_R_def calculateRAS_rotM_def
        mat4_copy_def fromValues_def aget2_def aget_def aput32_def lt_def Let_def)
  from calculateRAS_perm_flip [OF w] w p f show ?thesis
    unfolding a_def [symmetric] Let_def p by simp
qed

subsection \<open>The canonical case of calculateRAS\<close>

lemma list4: "length xs = 4 \<Longrightarrow> \<exists>a b c d. xs = [a, b, c, d]"
  by (auto simp: length_Suc_conv numeral_eq_Suc)

lemma toNumber_id: "v \<noteq> Undefined \<Longrightarrow> toNumber v = v"
  by (cases v) (simp_all add: toNumber_def)

lemma toNumber_Number [simp]: "toNumber (Number x) = Number x"
  by (simp add: toNumber_def)

lemma rotM_rows:
  assumes "numberMatrix a"
  shows "calculateRAS_rotM a = map toFloat32 (a ! 0 @ a ! 1 @ a ! 2) @ [0, 0, 0, 1]"
proof -
  from assms obtain r0 r1 r2 r3 where a: "a = [r0, r1, r2, r3]"
    unfolding numberMatrix_def using list4 by blast
  from assms a obtain a00 a01 a02 a03 where r0: "r0 = [a00, a01, a02, a03]"
    unfolding numberMatrix_def using list4 [of r0] by auto
  from assms a obtain a10 a11 a12 a13 where r1: "r1 = [a10, a11, a12, a13]"
    unfolding numberMatrix_def using list4 [of r1] by auto
  from assms a obtain a20 a21 a22 a23 where r2: "r2 = [a20, a21, a22, a23]"
    unfolding numberMatrix_def using list4 [of r2] by auto
  show ?thesis
    unfolding a r0 r1 r2 calculateRAS_rotM_def fromValues_def
    by (simp add: aget2_def aget_def)
qed

lemma calculateRAS_canonical:
  assumes "calculateRAS_perm (calculateRAS_ixyz (calculateRAS_absR (affine (hdr this)))) = [1, 2, 3]"
    and "calculateRAS_flip (calculateRAS_R (calculateRAS_rotM (affine (hdr this)))
           (calculateRAS_perm (calculateRAS_ixyz (calculateRAS_absR (affine (hdr this)))))) = [0, 0, 0]"
  shows "toRAS (calculateRAS this) = mat4_create"
    and "matRAS (calculateRAS this) = calculateRAS_rotM (affine (hdr this))"
  using assms unfolding calculateRAS_def
  by (simp_all add: Let_def arrayEquals_def mat4_clone_def)

text \<open>
  The comparisons of \<^verbatim>\<open>calculateRAS\<close> see the entries of the affine rounded to
  binary32: 1.00000001 and 1 tie there, so the second axis goes to the third row.
\<close>

lemma fround_near_one: "fround (100000001 / 100000000) = 1"
proof -
  have "roundBinary 24 (- 126) (100000001 / 100000000)
     = of_int (roundHalfEven ((100000001 / 100000000) / pow2 (max 0 (- 126) - int 24 + 1)))
         * pow2 (max 0 (- 126) - int 24 + 1)"
    by (rule roundBinary_eval) (simp_all add: pow2_def)
  also have "pow2 (max 0 (- 126) - int 24 + 1) = 1 / 8388608"
    by (simp add: pow2_def)
  also have "roundHalfEven ((100000001 / 100000000) / (1 / 8388608)) = 8388608"
    by (simp add: roundHalfEven_def Let_def)
  finally show ?thesis by (simp add: fround_def)
qed

lemma calculateRAS_binary32_tie:
  "calculateRAS_perm (calculateRAS_ixyz (calculateRAS_absR
     [[1, 0, 0, 0], [0, Number (100000001 / 100000000), 0, 0], [0, 1, 1, 0], [0, 0, 0, 1]]))
   = [1, 3, 2]"
  by (simp add: calculateRAS_perm_def calculateRAS_ixyz_def calculateRAS_absR_def
      fromValues_def aget2_def aget_def Math_abs_def gt_def fround_near_one Let_def)

text \<open>
  Claim C5 says that with the permutation \<open>[1, 2, 3]\<close> and all flip flags 0,
  \<^verbatim>\<open>calculateRAS\<close> sets \<open>toRAS\<close> to the 4x4 identity and \<open>matRAS\<close> exactly to the
  native affine over the row 0, 0, 0, 1. The first half holds. \<open>matRAS\<close> is a copy of
  \<open>rotM\<close>, a \<^verbatim>\<open>Float32Array\<close> that the matrix library fills from the affine, so each
  entry of the affine reaches \<open>matRAS\<close> rounded to binary32: an entry 0.1 arrives as
  13421773 / 2 ^ 27, as the evaluation after the theorem shows. What holds: \<open>toRAS\<close>
  is the identity, \<open>matRAS\<close> holds the first three rows of the affine rounded to binary32
  over the row 0, 0, 0, 1, and it equals these rows exactly when their entries are
  binary32 numbers.
\<close>

theorem calculateRAS_identity:
  fixes this :: nvimage
  defines "a \<equiv> affine (hdr this)"
  defines "perm \<equiv> calculateRAS_perm (calculateRAS_ixyz (calculateRAS_absR a))"
  defines "flip \<equiv> calculateRAS_flip (calculateRAS_R (calculateRAS_rotM a) perm)"
  assumes "perm = [1, 2, 3]" and "flip = [0, 0, 0]" and "numberMatrix a"
  shows "toRAS (calculateRAS this) = [1, 0, 0, 0,  0, 1, 0, 0,  0, 0, 1, 0,  0, 0, 0, 1]
       \<and> matRAS (calculateRAS this) = map toFloat32 (a ! 0 @ a ! 1 @ a ! 2) @ [0, 0, 0, 1]
       \<and> (list_all (\<lambda>v. toFloat32 v = v) (a ! 0 @ a ! 1 @ a ! 2) \<longrightarrow>
            matRAS (calculateRAS this) = a ! 0 @ a ! 1 @ a ! 2 @ [0, 0, 0, 1])"
proof -
  have t: "toRAS (calculateRAS this) = mat4_create"
    and m: "matRAS (calculateRAS this) = calculateRAS_rotM a"
    using calculateRAS_canonical [of this] assms(4,5)
    unfolding a_def perm_def flip_def by simp_all
  have r: "matRAS (calculateRAS this) = map toFloat32 (a ! 0 @ a ! 1 @ a ! 2) @ [0, 0, 0, 1]"
    unfolding m by (rule rotM_rows [OF assms(6)])
  have "map toFloat32 (a ! 0 @ a ! 1 @ a ! 2) = a ! 0 @ a ! 1 @ a ! 2"
    if "list_all (\<lambda>v. toFloat32 v = v) (a ! 0 @ a ! 1 @ a ! 2)"
    using that by (intro map_idI) (simp add: list_all_iff)
  with t r show ?thesis
    by (simp add: mat4_create_def)
qed

theorem calculateRAS_identity_witness:
  "(let this = NVImage_default []
        \<lparr>hdr := noHdr\<lparr>affine := [[2, 0, 0, 10], [0, 3, 0, 20], [0, 0, 4, 30], [0, 0, 0, 1]],
                          dims := [3, 5, 6, 7, 1, 1, 1, 1]\<rparr>\<rparr>;
        a = affine (hdr this);
        perm = calculateRAS_perm (calculateRAS_ixyz (calculateRAS_absR a));
        flip = calculateRAS_flip (calculateRAS_R (calculateRAS_rotM a) perm)
    in perm = [1, 2, 3] \<and> flip = [0, 0, 0] \<and> numberMatrix a
       \<and> list_all (\<lambda>v. toFloat32 v = v) (a ! 0 @ a ! 1 @ a ! 2)
       \<and> toRAS (calculateRAS this) = [1, 0, 0, 0,  0, 1, 0, 0,  0, 0, 1, 0,  0, 0, 0, 1]
       \<and> matRAS (calculateRAS this)
           = [2, 0, 0, 10,  0, 3, 0, 20,  0, 0, 4, 30,  0, 0, 0, 1])"
proof -
  define this where "this = NVImage_default []
        \<lparr>hdr := noHdr\<lparr>affine := [[2, 0, 0, 10], [0, 3, 0, 20], [0, 0, 4, 30], [0, 0, 0, 1]],
                          dims := [3, 5, 6, 7, 1, 1, 1, 1]\<rparr>\<rparr>"
  have a: "affine (hdr this) = [[2, 0, 0, 10], [0, 3, 0, 20], [0, 0, 4, 30], [0, 0, 0, 1]]"
    by (simp add: this_def)
  have p: "calculateRAS_perm (calculateRAS_ixyz (calculateRAS_absR (affine (hdr this)))) = [1, 2, 3]"
    unfolding a
    by (simp add: calculateRAS_perm_def calculateRAS_ixyz_def calculateRAS_absR_def
        fromValues_def aget2_def aget_def Math_abs_def gt_def Let_def)
  have f: "calculateRAS_flip (calculateRAS_R (calculateRAS_rotM (affine (hdr this)))
      (calculateRAS_perm (calculateRAS_ixyz (calculateRAS_absR (affine (hdr this)))))) = [0, 0, 0]"
    unfolding p unfolding a
    by (simp add: calculateRAS_flip_def calculateRAS_R_def calculateRAS_rotM_def mat4_copy_def
        fromValues_def aget2_def aget_def aput32_def lt_def Let_def)
  have n: "numberMatrix (affine (hdr this))"
    unfolding a by (simp add: numberMatrix_def)
  have b: "list_all (\<lambda>v. toFloat32 v = v) (affine (hdr this) ! 0 @ affine (hdr this) ! 1
      @ affine (hdr this) ! 2)"
    unfolding a by simp
  from calculateRAS_identity [OF p f n] b
  have "toRAS (calculateRAS this) = [1, 0, 0, 0,  0, 1, 0, 0,  0, 0, 1, 0,  0, 0, 0, 1]
      \<and> matRAS (calculateRAS this)
          = affine (hdr this) ! 0 @ affine (hdr this) ! 1 @ affine (hdr this) ! 2 @ [0, 0, 0, 1]"
    by blast
  then have "toRAS (calculateRAS this) = [1, 0, 0, 0,  0, 1, 0, 0,  0, 0, 1, 0,  0, 0, 0, 1]
      \<and> matRAS (calculateRAS this) = [2, 0, 0, 10,  0, 3, 0, 20,  0, 0, 4, 30,  0, 0, 0, 1]"
    unfolding a by simp
  with p f n b show ?thesis
    unfolding this_def [symmetric] Let_def by blast
qed

text \<open>
  The affine of claim C5 with the entry 0.1: the permutation is \<open>[1, 2, 3]\<close>, no axis is
  flipped, and the first entry of \<open>matRAS\<close> is not 0.1.
\<close>

theorem calculateRAS_matRAS_rounded:
  "(let this = NVImage_default []
        \<lparr>hdr := noHdr\<lparr>affine := [[Number (1 / 10), 0, 0, 0], [0, 1, 0, 0], [0, 0, 1, 0],
                                     [0, 0, 0, 1]],
                          dims := [3, 5, 6, 7, 1, 1, 1, 1]\<rparr>\<rparr>;
        a = affine (hdr this);
        perm = calculateRAS_perm (calculateRAS_ixyz (calculateRAS_absR a));
        flip = calculateRAS_flip (calculateRAS_R (calculateRAS_rotM a) perm)
    in perm = [1, 2, 3] \<and> flip = [0, 0, 0] \<and> numberMatrix a
       \<and> aget (matRAS (calculateRAS this)) 0 = Number (13421773 / 134217728)
       \<and> matRAS (calculateRAS this) \<noteq> a ! 0 @ a ! 1 @ a ! 2 @ [0, 0, 0, 1])"
proof -
  define this where "this = NVImage_default []
        \<lparr>hdr := noHdr\<lparr>affine := [[Number (1 / 10), 0, 0, 0], [0, 1, 0, 0], [0, 0, 1, 0],
                                     [0, 0, 0, 1]],
                          dims := [3, 5, 6, 7, 1, 1, 1, 1]\<rparr>\<rparr>"
  have a: "affine (hdr this)
      = [[Number (1 / 10), 0, 0, 0], [0, 1, 0, 0], [0, 0, 1, 0], [0, 0, 0, 1]]"
    by (simp add: this_def)
  have p: "calculateRAS_perm (calculateRAS_ixyz (calculateRAS_absR (affine (hdr this)))) = [1, 2, 3]"
    unfolding a
    by (simp add: calculateRAS_perm_def calculateRAS_ixyz_def calculateRAS_absR_def
        fromValues_def aget2_def aget_def Math_abs_def gt_def fround_tenth Let_def)
  have f: "calculateRAS_flip (calculateRAS_R (calculateRAS_rotM (affine (hdr this)))
      (calculateRAS_perm (calculateRAS_ixyz (calculateRAS_absR (affine (hdr this)))))) = [0, 0, 0]"
    unfolding p unfolding a
    by (simp add: calculateRAS_flip_def calculateRAS_R_def calculateRAS_rotM_def mat4_copy_def
        fromValues_def aget2_def aget_def aput32_def lt_def fround_tenth fround_tenth_again
        Let_def)
  have n: "numberMatrix (affine (hdr this))"
    unfolding a by (simp add: numberMatrix_def)
  have m: "matRAS (calculateRAS this) = calculateRAS_rotM (affine (hdr this))"
    by (rule calculateRAS_canonical(2) [OF p f])
  have m0: "aget (matRAS (calculateRAS this)) 0 = Number (13421773 / 134217728)"
    unfolding m a
    by (simp add: calculateRAS_rotM_def fromValues_def aget2_def aget_def fround_tenth)
  have "aget (affine (hdr this) ! 0 @ affine (hdr this) ! 1 @ affine (hdr this) ! 2
      @ [0, 0, 0, 1]) 0 = Number (1 / 10)"
    unfolding a by (simp add: aget_def)
  with m0 have "matRAS (calculateRAS this)
      \<noteq> affine (hdr this) ! 0 @ affine (hdr this) ! 1 @ affine (hdr this) ! 2 @ [0, 0, 0, 1]"
    by auto
  with p f n m0 show ?thesis
    unfolding this_def [symmetric] Let_def by blast
qed

subsection \<open>The resolved affine\<close>

lemma NaN_arith [simp]:
  "NaN + v = NaN" "v + NaN = NaN" "NaN - v = NaN" "v - NaN = NaN"
  "NaN * v = NaN" "v * NaN = NaN" "- NaN = NaN"
  by (cases v; simp add: plus_jsval_def minus_jsval_def times_jsval_def uminus_jsval_def)+

lemma fold_ok:
  fixes b :: "int \<Rightarrow> int \<Rightarrow> bool"
  shows "fold (\<lambda>i. fold (\<lambda>j (iOK, jOK).
                      if b i j then (iOK, jOK)
                      else (iOK[nat i := True], jOK[nat j := True])) [0, 1, 2]) [0, 1, 2]
                    ([False, False, False, False], [False, False, False, False])
   = ([\<not> b 0 0 \<or> \<not> b 0 1 \<or> \<not> b 0 2, \<not> b 1 0 \<or> \<not> b 1 1 \<or> \<not> b 1 2, \<not> b 2 0 \<or> \<not> b 2 1 \<or> \<not> b 2 2, False],
      [\<not> b 0 0 \<or> \<not> b 1 0 \<or> \<not> b 2 0, \<not> b 0 1 \<or> \<not> b 1 1 \<or> \<not> b 2 1, \<not> b 0 2 \<or> \<not> b 1 2 \<or> \<not> b 2 2, False])"
  by (cases "b 0 0"; cases "b 0 1"; cases "b 0 2"; cases "b 1 0"; cases "b 1 1"; cases "b 1 2";
      cases "b 2 0"; cases "b 2 1"; cases "b 2 2") simp_all

lemma isNaN_case: "isNaN v = (case v of Number r \<Rightarrow> False | _ \<Rightarrow> True)"
  by (simp add: isNaN_def)

lemma number_case: "(case v of Number r \<Rightarrow> True | _ \<Rightarrow> False) = (\<not> isNaN v)"
  by (cases v) (simp_all add: isNaN_def)

lemma strictEq_zero: "\<not> isNaN v \<Longrightarrow> strictEq v (Number 0) = (v = Number 0)"
  by (cases v) (simp_all add: strictEq_def isNaN_def)

lemma isAffineOK_iff: "isAffineOK m = wellFormed m"
proof (cases "list_ex (\<lambda>i. list_ex (\<lambda>j. isNaN (aget2 m i j)) [0, 1, 2, 3]) [0, 1, 2, 3]")
  case True
  then show ?thesis
    unfolding isAffineOK_def wellFormed_def number_case by auto
next
  case False
  then have nn: "\<not> isNaN (aget2 m 0 0)" "\<not> isNaN (aget2 m 0 1)" "\<not> isNaN (aget2 m 0 2)"
    "\<not> isNaN (aget2 m 1 0)" "\<not> isNaN (aget2 m 1 1)" "\<not> isNaN (aget2 m 1 2)"
    "\<not> isNaN (aget2 m 2 0)" "\<not> isNaN (aget2 m 2 1)" "\<not> isNaN (aget2 m 2 2)"
    by simp_all
  from False have all: "list_all (\<lambda>i. list_all (\<lambda>j. \<not> isNaN (aget2 m i j)) [0, 1, 2, 3]) [0, 1, 2, 3]"
    by simp
  show ?thesis
    unfolding isAffineOK_def wellFormed_def number_case fold_ok Let_def
    using False all by (simp add: strictEq_zero nn) blast
qed

lemma spacingOr1_Number: "\<exists>r. spacingOr1 v = Number r \<and> r \<noteq> 0"
  by (cases v) (auto simp: spacingOr1_def isNaN_def strictEq_def)

lemma wellFormed_diag:
  assumes "x \<noteq> 0" and "y \<noteq> 0" and "z \<noteq> 0"
  shows "wellFormed [[Number x, 0, 0, 0], [0, Number y, 0, 0], [0, 0, Number z, 0], [0, 0, 0, 1]]"
  using assms by (simp add: wellFormed_def aget2_def aget_def)

lemma affineFromPixDims_affine:
  "affine (affineFromPixDims h) =
     [[spacingOr1 (aget (pixDims h) 1), 0, 0, 0], [0, spacingOr1 (aget (pixDims h) 2), 0, 0],
      [0, 0, spacingOr1 (aget (pixDims h) 3), 0], [0, 0, 0, 1]]"
  by (simp add: affineFromPixDims_def spacingOr1_def Let_def)

lemma pixDims_chooseAffine: "pixDims (chooseAffine useQ h) = pixDims h"
  by (simp add: chooseAffine_def affineFromQForm_def Let_def)

text \<open>
  Claim C1. For every header (its affine an array of four rows of four numbers, as the
  parser delivers it) the affine-resolution step of the constructor returns a
  well-formed affine: no entry is \<^verbatim>\<open>NaN\<close> and no row and no column of the 3x3 block
  is all zero. When the candidate affine (the matrix form or the one derived from the
  quaternion) is malformed, the result is the diagonal of the voxel spacings, with 1 in
  place of a spacing that is \<^verbatim>\<open>NaN\<close> or zero. The step is a total function without
  an error result: none of its statements throws.
\<close>

theorem resolveAffine_wellFormed:
  assumes "numberMatrix (affine h)"
  shows "wellFormed (affine (resolveAffine useQ h))
   \<and> (\<not> wellFormed (affine (chooseAffine useQ h)) \<longrightarrow>
        affine (resolveAffine useQ h) =
          [[spacingOr1 (aget (pixDims h) 1), 0, 0, 0], [0, spacingOr1 (aget (pixDims h) 2), 0, 0],
           [0, 0, spacingOr1 (aget (pixDims h) 3), 0], [0, 0, 0, 1]])"
proof (cases "isAffineOK (affine (chooseAffine useQ h))")
  case True
  then have "resolveAffine useQ h = chooseAffine useQ h"
    by (simp add: resolveAffine_def Let_def)
  with True show ?thesis
    by (simp add: isAffineOK_iff)
next
  case False
  then have r: "affine (resolveAffine useQ h) =
          [[spacingOr1 (aget (pixDims h) 1), 0, 0, 0], [0, spacingOr1 (aget (pixDims h) 2), 0, 0],
           [0, 0, spacingOr1 (aget (pixDims h) 3), 0], [0, 0, 0, 1]]"
    by (simp add: resolveAffine_def Let_def affineFromPixDims_affine pixDims_chooseAffine)
  obtain x y z where "spacingOr1 (aget (pixDims h) 1) = Number x" "x \<noteq> 0"
    "spacingOr1 (aget (pixDims h) 2) = Number y" "y \<noteq> 0"
    "spacingOr1 (aget (pixDims h) 3) = Number z" "z \<noteq> 0"
    using spacingOr1_Number by metis
  then show ?thesis
    using r wellFormed_diag [of x y z] by simp
qed


theorem resolveAffine_wellFormed_witness:
  "(let h = noHdr\<lparr>affine := [[NaN, 0, 0, 0], [0, 1, 0, 0], [0, 0, 1, 0], [0, 0, 0, 1]],
                    quatern_b := 2, quatern_c := 0, quatern_d := 0,
                    qoffset_x := 0, qoffset_y := 0, qoffset_z := 0,
                    qform_code := 1, sform_code := 1, scl_slope := 1, scl_inter := 0,
                    pixDims := [1, 2, 0, NaN, 0, 0, 0, 0]\<rparr>
    in numberMatrix (affine h)
       \<and> \<not> wellFormed (affine (chooseAffine False h))
       \<and> wellFormed (affine (resolveAffine False h))
       \<and> affine (resolveAffine False h) = [[2, 0, 0, 0], [0, 1, 0, 0], [0, 0, 1, 0], [0, 0, 0, 1]])"
proof -
  define h where "h = noHdr\<lparr>affine := [[NaN, 0, 0, 0], [0, 1, 0, 0], [0, 0, 1, 0], [0, 0, 0, 1]],
                    quatern_b := 2, quatern_c := 0, quatern_d := 0,
                    qoffset_x := 0, qoffset_y := 0, qoffset_z := 0,
                    qform_code := 1, sform_code := 1, scl_slope := 1, scl_inter := 0,
                    pixDims := [1, 2, 0, NaN, 0, 0, 0, 0]\<rparr>"
  have p: "pixDims h = [1, 2, 0, NaN, 0, 0, 0, 0]"
    by (simp add: h_def)
  have a: "affine h = [[NaN, 0, 0, 0], [0, 1, 0, 0], [0, 0, 1, 0], [0, 0, 0, 1]]"
    by (simp add: h_def)
  have s: "scl_slope h = 1" "scl_inter h = 0"
    by (simp_all add: h_def)
  have nm: "numberMatrix (affine h)"
    unfolding a by (simp add: numberMatrix_def)
  have q: "quatern_R h = [[NaN, NaN, NaN], [NaN, NaN, NaN], [NaN, NaN, NaN]]"
    by (simp add: h_def quatern_R_def Let_def Math_sqrt_def Math_pow_def)
  have "\<not> isAffineOK (affine h)"
    unfolding a by (simp add: isAffineOK_def isNaN_def aget2_def aget_def)
  then have c: "chooseAffine False h = affineFromQForm h"
    by (simp add: chooseAffine_def s isNaN_def strictEq_def Let_def)
  have "aget2 (affine (affineFromQForm h)) 0 0 = NaN"
    unfolding affineFromQForm_def q p a
    apply (simp only: Let_def nifti_hdr.simps)
    apply (simp add: strictEq_def aget_def)
    apply (simp add: aget2_def aget_def)
    apply (simp add: aset2_def)
    apply (simp add: aset_def)
    done
  then have nw: "\<not> wellFormed (affine (chooseAffine False h))"
    unfolding c by (simp add: wellFormed_def)
  have d: "[[spacingOr1 (aget (pixDims h) 1), 0, 0, 0], [0, spacingOr1 (aget (pixDims h) 2), 0, 0],
           [0, 0, spacingOr1 (aget (pixDims h) 3), 0], [0, 0, 0, 1]]
        = [[2, 0, 0, 0], [0, 1, 0, 0], [0, 0, 1, 0], [0, 0, 0, 1]]"
    by (simp add: p spacingOr1_def aget_def isNaN_def strictEq_def)
  have "wellFormed (affine (resolveAffine False h))
      \<and> affine (resolveAffine False h) = [[2, 0, 0, 0], [0, 1, 0, 0], [0, 0, 1, 0], [0, 0, 0, 1]]"
    using resolveAffine_wellFormed [OF nm, of False] nw unfolding d by blast
  with nw nm show ?thesis
    unfolding h_def [symmetric] Let_def by blast
qed

subsection \<open>The widening loops\<close>

lemma widen_fold:
  "n \<le> length src \<Longrightarrow> length out = length src \<Longrightarrow>
   fold (\<lambda>i img. aput img i (conv (aget src i))) (map int [0..<n]) out
     = map (toNumber \<circ> conv) (take n src) @ drop n out"
proof (induction n)
  case 0
  then show ?case by simp
next
  case (Suc n)
  then have n: "n < length src"
    and IH: "fold (\<lambda>i img. aput img i (conv (aget src i))) (map int [0..<n]) out
     = map (toNumber \<circ> conv) (take n src) @ drop n out"
    by simp_all
  have "fold (\<lambda>i img. aput img i (conv (aget src i))) (map int [0..<Suc n]) out
      = aput (map (toNumber \<circ> conv) (take n src) @ drop n out) (int n) (conv (aget src (int n)))"
    by (simp add: IH)
  also have "\<dots> = (map (toNumber \<circ> conv) (take n src) @ drop n out)[n := toNumber (conv (src ! n))]"
    using n Suc.prems by (simp add: aput_def aget_def)
  also have "\<dots> = map (toNumber \<circ> conv) (take n src) @ (drop n out)[0 := toNumber (conv (src ! n))]"
    using n by (simp add: list_update_append)
  also have "\<dots> = map (toNumber \<circ> conv) (take (Suc n) src) @ drop (Suc n) out"
    using n Suc.prems
    by (simp add: take_Suc_conv_app_nth Cons_nth_drop_Suc [symmetric])
  finally show ?case .
qed

lemma widen_butlast:
  assumes "src \<noteq> []"
  shows "widen conv src = map (toNumber \<circ> conv) (butlast src) @ [0]"
proof -
  have "widen conv src = map (toNumber \<circ> conv) (take (length src - 1) src)
      @ drop (length src - 1) (replicate (length src) 0)"
    unfolding widen_def Let_def
    by (subst widen_fold) (simp_all add: nat_diff_distrib')
  also have "drop (length src - 1) (replicate (length src) (0::jsval))
      = replicate (length src - (length src - 1)) 0"
    by (rule drop_replicate)
  also have "length src - (length src - 1) = 1"
    using assms by (cases src) simp_all
  finally show ?thesis
    by (simp add: butlast_conv_take)
qed

text \<open>
  The conversion of INT64 voxels rounds to binary64: 2 ^ 53 + 1 becomes 2 ^ 53.
\<close>

lemma bigintToNumber_rounds:
  "bigintToNumber (Number 9007199254740993) = Number 9007199254740992"
proof -
  have "roundBinary 53 (- 1022) 9007199254740993
     = of_int (roundHalfEven (9007199254740993 / pow2 (max 53 (- 1022) - int 53 + 1)))
         * pow2 (max 53 (- 1022) - int 53 + 1)"
    by (rule roundBinary_eval) (simp_all add: pow2_def)
  also have "pow2 (max 53 (- 1022) - int 53 + 1) = 2"
    by (simp add: pow2_def)
  also have "roundHalfEven (9007199254740993 / 2) = 4503599627370496"
    by (simp add: roundHalfEven_def Let_def)
  finally show ?thesis by (simp add: bigintToNumber_def)
qed

text \<open>
  Claim C3 says that the widening of INT8, UINT32, INT32 and INT64 data stores every source
  voxel in the new array, the last one included. The loops stop at \<open>i < vx - 1\<close>, so
  the last element of the new array keeps its initial zero (\<open>widen_butlast\<close>). On the
  three voxels 1, 2, 3 each of the four cases yields 1, 2, 0.
\<close>

theorem widen_drops_last_voxel:
  "NVImage_img DT_INT8 [1, 2, 3] = Inr ([1, 2, 0], DT_SIGNED_SHORT)
   \<and> NVImage_img DT_UINT32 [1, 2, 3] = Inr ([1, 2, 0], DT_DOUBLE)
   \<and> NVImage_img DT_SIGNED_INT [1, 2, 3] = Inr ([1, 2, 0], DT_DOUBLE)
   \<and> NVImage_img DT_INT64 [1, 2, 3] = Inr ([1, 2, 0], DT_DOUBLE)"
  by (simp add: NVImage_img_def widen_butlast DT_INT8_def DT_UINT32_def DT_SIGNED_INT_def
      DT_INT64_def DT_UNSIGNED_CHAR_def DT_SIGNED_SHORT_def DT_FLOAT_def DT_DOUBLE_def
      DT_RGB_def DT_UINT16_def DT_RGBA32_def toNumber_def)

subsection \<open>The scan of calMinMax\<close>

lemma scan_zero_first: "scan True [Number 0, Number 5, Number 7] = (Number 0, Number 7, 1, 0)"
  by (simp add: scan_def scanStep_def aget_def isNaN_def strictEq_def Math_min_def Math_max_def)

lemma scan_NaN_first: "scan True [NaN, 5, 7] = (NaN, NaN, 0, 1)"
  by (simp add: scan_def scanStep_def aget_def isNaN_def strictEq_def Math_min_def Math_max_def)

text \<open>
  Claim C4 says that with \<^verbatim>\<open>ignoreZeroVoxels\<close> the raw minimum and maximum of the scan
  range over the voxels that are neither zero nor \<^verbatim>\<open>NaN\<close>, wherever the zeros stand. The
  scan starts from \<open>mn = mx = this.img[0]\<close> before any test, so a zero (or a
  \<^verbatim>\<open>NaN\<close>) at index 0 takes part: on the voxels 0, 5, 7 the scan yields the minimum 0,
  not 5, and \<^verbatim>\<open>calMinMax\<close> returns the range 0 to 7.
\<close>

theorem calMinMax_counts_leading_zero:
  "(let this = NVImage_default []
        \<lparr>ignoreZeroVoxels := True, hdr := noHdr\<lparr>scl_slope := 1, scl_inter := 0\<rparr>, img := 0\<rparr>
    in scan (ignoreZeroVoxels this) [0, 5, 7] = (0, 7, 1, 0)
       \<and> map_option snd (calMinMax (\<lambda>n. None) [[0, 5, 7]] this) = Some [0, 7, 0, 7])"
proof -
  define this where "this = NVImage_default []
        \<lparr>ignoreZeroVoxels := True, hdr := noHdr\<lparr>scl_slope := 1, scl_inter := 0\<rparr>, img := 0\<rparr>"
  have f: "ignoreZeroVoxels this" "img this = 0" "percentileFrac this = Number (2 / 100)"
    "scl_slope (hdr this) = 1" "scl_inter (hdr this) = 0" "hdr_cal_min (hdr this) = Undefined"
    by (simp_all add: this_def NVImage_default_def NVImage_fields_def noHdr_def)
  have sp: "map_option snd (scanPath [0, 5, 7] this) = Some [0, 7, 0, 7]"
    unfolding scanPath_def f
    by (simp add: scan_zero_first Let_def intensityRaw2Scaled_def f strictEq_def Math_round_def lt_def)
  have "calMinMax (\<lambda>n. None) [[0, 5, 7]] this = scanPath [0, 5, 7] this"
    by (simp add: calMinMax_def f isFinite_def strictEq_def deref_def Let_def)
  with sp show ?thesis
    unfolding this_def [symmetric] Let_def using f(1) scan_zero_first by simp
qed

subsection \<open>No variability\<close>








subsection \<open>The clip plane\<close>

text \<open>
  Claim C9. When the fourth component of the clip plane is greater than 1, \<^verbatim>\<open>applyClip\<close>
  returns at its first test: the sample position and the length are handed back as
  they came in, for every ray direction. The function has the same text in
  \<^verbatim>\<open>fragRenderShader\<close> and in \<^verbatim>\<open>fragVolumePickingShader\<close>.
\<close>

theorem applyClip_disabled:
  "va clipPlane > 1 \<Longrightarrow> applyClip clipPlane dir pos len = (pos, pos, len)"
  by (simp add: applyClip_def Let_def)

theorem applyClip_disabled_witness:
  "(2::real) > 1
   \<and> applyClip \<lparr>vx = 1, vy = 0, vz = 0, va = 2\<rparr> \<lparr>x3 = 1, y3 = 0, z3 = 0\<rparr>
         \<lparr>vx = 1 / 2, vy = 1 / 2, vz = 0, va = 0\<rparr> 1
       = (\<lparr>vx = 1 / 2, vy = 1 / 2, vz = 0, va = 0\<rparr>, \<lparr>vx = 1 / 2, vy = 1 / 2, vz = 0, va = 0\<rparr>, 1)"
  using applyClip_disabled [of "\<lparr>vx = 1, vy = 0, vz = 0, va = 2\<rparr>" "\<lparr>x3 = 1, y3 = 0, z3 = 0\<rparr>"
      "\<lparr>vx = 1 / 2, vy = 1 / 2, vz = 0, va = 0\<rparr>" 1]
  by simp

subsection \<open>The compositing loop\<close>

lemma step_samplePos:
  "samplePos (fst (compositeStep volume oc deltaDir s)) = add4 (samplePos s) deltaDir"
  by (simp add: compositeStep_def Let_def)

lemma step_transparent:
  assumes "va (volume (xyz (samplePos s))) < 1 / 100"
  shows "compositeStep volume oc deltaDir s = (s\<lparr>samplePos := add4 (samplePos s) deltaDir\<rparr>, False)"
  using assms by (simp add: compositeStep_def Let_def)

lemma step_opaque:
  assumes "va (volume (xyz (samplePos s))) = 1" and "0 < oc"
  shows "colAcc (fst (compositeStep volume oc deltaDir s))
           = add4 (scale4 (1 - va (colAcc s)) (volume (xyz (samplePos s)))) (colAcc s)"
    and "snd (compositeStep volume oc deltaDir s)"
proof -
  let ?c = "volume (xyz (samplePos s))"
  have c: "?c\<lparr>va := 1, vx := vx ?c, vy := vy ?c, vz := vz ?c\<rparr> = ?c"
    using assms(1) by simp
  show "colAcc (fst (compositeStep volume oc deltaDir s))
           = add4 (scale4 (1 - va (colAcc s)) ?c) (colAcc s)"
    using assms by (simp add: compositeStep_def Let_def add4_def scale4_def)
  then show "snd (compositeStep volume oc deltaDir s)"
    using assms by (simp add: compositeStep_def Let_def add4_def scale4_def earlyTermination_def)
qed

text \<open>
  Claim C7. In the compositing loop a sample whose alpha is below 0.01 leaves \<open>colAcc\<close>
  as it is and the loop goes on. A sample with alpha 1 ends the loop in that iteration:
  the accumulated alpha is 1, above the threshold 0.95, and the accumulated colour is the
  sample composited over the previous accumulator, which is the sample itself when the
  accumulator was empty. The opacity correction \<open>oc\<close> is \<^verbatim>\<open>stepSize/sliceSize\<close>, which
  is 1 in \<^verbatim>\<open>main\<close>; the theorem asks for a positive one.
\<close>

theorem compositing_transparent_and_opaque:
  fixes volume :: "vec3 \<Rightarrow> vec4" and oc len :: real and deltaDir :: vec4 and s :: ray
  defines "sample \<equiv> volume (xyz (samplePos s))"
  defines "r \<equiv> compositeStep volume oc deltaDir s"
  shows "(va sample < 1 / 100 \<longrightarrow> colAcc (fst r) = colAcc s \<and> \<not> snd r)
       \<and> (va sample = 1 \<and> 0 < oc \<and> va (samplePos s) \<le> len \<longrightarrow>
            compositeLoop volume oc deltaDir len s = Some (fst r)
            \<and> va (colAcc (fst r)) = 1 \<and> va (colAcc (fst r)) > earlyTermination
            \<and> colAcc (fst r) = add4 (scale4 (1 - va (colAcc s)) sample) (colAcc s)
            \<and> (colAcc s = zero4 \<longrightarrow> colAcc (fst r) = sample))"
proof (intro conjI impI)
  assume "va sample < 1 / 100"
  then show "colAcc (fst r) = colAcc s" and "\<not> snd r"
    unfolding sample_def r_def by (simp_all add: step_transparent)
next
  assume a: "va sample = 1 \<and> 0 < oc \<and> va (samplePos s) \<le> len"
  then have o: "colAcc (fst r) = add4 (scale4 (1 - va (colAcc s)) sample) (colAcc s)" "snd r"
    unfolding sample_def r_def using step_opaque [of volume s oc deltaDir] by simp_all
  from a o(2) show "compositeLoop volume oc deltaDir len s = Some (fst r)"
    unfolding r_def by (subst compositeLoop.simps) (simp add: Let_def)
  show "colAcc (fst r) = add4 (scale4 (1 - va (colAcc s)) sample) (colAcc s)"
    by (rule o(1))
  from a show "va (colAcc (fst r)) = 1" and "va (colAcc (fst r)) > earlyTermination"
    unfolding o(1) by (simp_all add: add4_def scale4_def earlyTermination_def)
  assume "colAcc s = zero4"
  then show "colAcc (fst r) = sample"
    unfolding o(1) by (simp add: add4_def scale4_def zero4_def)
qed


theorem compositing_transparent_and_opaque_witness:
  "(let volT = (\<lambda>p. \<lparr>vx = 1 / 2, vy = 1 / 2, vz = 1 / 2, va = 0\<rparr>);
        volO = (\<lambda>p. \<lparr>vx = 1 / 2, vy = 1 / 4, vz = 1 / 8, va = 1\<rparr>);
        d = \<lparr>vx = 0, vy = 0, vz = 1 / 10, va = 1 / 10\<rparr>;
        s = \<lparr>samplePos = zero4, colAcc = zero4, firstHit = zero4, backNearest = 1\<rparr>
    in colAcc (fst (compositeStep volT 1 d s)) = zero4 \<and> \<not> snd (compositeStep volT 1 d s)
       \<and> compositeLoop volO 1 d 1 s = Some (fst (compositeStep volO 1 d s))
       \<and> colAcc (fst (compositeStep volO 1 d s)) = \<lparr>vx = 1 / 2, vy = 1 / 4, vz = 1 / 8, va = 1\<rparr>)"
proof -
  define volT :: "vec3 \<Rightarrow> vec4" where "volT = (\<lambda>p. \<lparr>vx = 1 / 2, vy = 1 / 2, vz = 1 / 2, va = 0\<rparr>)"
  define volO :: "vec3 \<Rightarrow> vec4" where "volO = (\<lambda>p. \<lparr>vx = 1 / 2, vy = 1 / 4, vz = 1 / 8, va = 1\<rparr>)"
  define d :: vec4 where "d = \<lparr>vx = 0, vy = 0, vz = 1 / 10, va = 1 / 10\<rparr>"
  define s :: ray where "s = \<lparr>samplePos = zero4, colAcc = zero4, firstHit = zero4, backNearest = 1\<rparr>"
  have t: "va (volT (xyz (samplePos s))) < 1 / 100"
    by (simp add: volT_def)
  have o: "va (volO (xyz (samplePos s))) = 1 \<and> (0::real) < 1 \<and> va (samplePos s) \<le> 1"
    by (simp add: volO_def s_def zero4_def)
  have z: "colAcc s = zero4"
    by (simp add: s_def)
  from compositing_transparent_and_opaque [of volT s 1 d 1] t z
  have 1: "colAcc (fst (compositeStep volT 1 d s)) = zero4 \<and> \<not> snd (compositeStep volT 1 d s)"
    by simp
  from compositing_transparent_and_opaque [of volO s 1 d 1] o z
  have 2: "compositeLoop volO 1 d 1 s = Some (fst (compositeStep volO 1 d s))
      \<and> colAcc (fst (compositeStep volO 1 d s)) = volO (xyz (samplePos s))"
    by blast
  from 1 2 show ?thesis
    unfolding volT_def [symmetric] volO_def [symmetric] d_def [symmetric] s_def [symmetric] Let_def
    by (simp add: volO_def)
qed

subsection \<open>The final alpha\<close>

lemma alpha_step_bounds:
  fixes A a oc :: real
  assumes "0 \<le> A" "A \<le> 1" "0 \<le> a" "a \<le> 1" "0 \<le> oc"
  shows "0 \<le> (1 - A) * (1 - (1 - a) powr oc) + A" and "(1 - A) * (1 - (1 - a) powr oc) + A \<le> 1"
proof -
  have p: "0 \<le> (1 - a) powr oc" "(1 - a) powr oc \<le> 1"
    using assms by (simp_all add: powr_le1)
  then have "0 \<le> (1 - A) * (1 - (1 - a) powr oc)"
    using assms by simp
  then show "0 \<le> (1 - A) * (1 - (1 - a) powr oc) + A"
    using assms by simp
  have "(1 - A) * (1 - (1 - a) powr oc) \<le> (1 - A) * 1"
    using p assms by (intro mult_left_mono) simp_all
  then show "(1 - A) * (1 - (1 - a) powr oc) + A \<le> 1"
    by simp
qed

lemma step_alpha_inv:
  assumes tex: "\<forall>p. 0 \<le> va (volume p) \<and> va (volume p) \<le> 1" and "0 \<le> oc"
    and "0 \<le> va (colAcc s)" "va (colAcc s) \<le> 1"
  shows "0 \<le> va (colAcc (fst (compositeStep volume oc deltaDir s)))
       \<and> va (colAcc (fst (compositeStep volume oc deltaDir s))) \<le> 1"
proof (cases "va (volume (xyz (samplePos s))) < 1 / 100")
  case True
  then show ?thesis
    using assms by (simp add: step_transparent)
next
  case False
  have "va (colAcc (fst (compositeStep volume oc deltaDir s)))
      = (1 - va (colAcc s)) * (1 - (1 - va (volume (xyz (samplePos s)))) powr oc) + va (colAcc s)"
    using False by (simp add: compositeStep_def Let_def add4_def scale4_def)
  then show ?thesis
    using alpha_step_bounds [of "va (colAcc s)" "va (volume (xyz (samplePos s)))" oc] assms
    by simp
qed

lemma compositeLoop_returns:
  assumes tex: "\<forall>p. 0 \<le> va (volume p) \<and> va (volume p) \<le> 1" and oc: "0 \<le> oc"
    and d: "0 < va deltaDir"
  shows "len - va (samplePos s) < real k * va deltaDir \<Longrightarrow>
         0 \<le> va (colAcc s) \<Longrightarrow> va (colAcc s) \<le> 1 \<Longrightarrow>
         \<exists>s'. compositeLoop volume oc deltaDir len s = Some s'
              \<and> 0 \<le> va (colAcc s') \<and> va (colAcc s') \<le> 1"
proof (induction k arbitrary: s)
  case 0
  then have "\<not> va (samplePos s) \<le> len"
    by simp
  then have "compositeLoop volume oc deltaDir len s = Some s"
    by (subst compositeLoop.simps) simp
  with 0 show ?case by simp
next
  case (Suc k)
  show ?case
  proof (cases "va (samplePos s) \<le> len")
    case False
    then have "compositeLoop volume oc deltaDir len s = Some s"
      by (subst compositeLoop.simps) simp
    with Suc.prems show ?thesis by simp
  next
    case True
    let ?r = "compositeStep volume oc deltaDir s"
    have inv: "0 \<le> va (colAcc (fst ?r)) \<and> va (colAcc (fst ?r)) \<le> 1"
      using step_alpha_inv [OF tex oc] Suc.prems by simp
    show ?thesis
    proof (cases "snd ?r")
      case True
      with \<open>va (samplePos s) \<le> len\<close>
      have "compositeLoop volume oc deltaDir len s = Some (fst ?r)"
        by (subst compositeLoop.simps) (simp add: Let_def)
      with inv show ?thesis by simp
    next
      case False
      with \<open>va (samplePos s) \<le> len\<close>
      have e: "compositeLoop volume oc deltaDir len s = compositeLoop volume oc deltaDir len (fst ?r)"
        by (subst compositeLoop.simps) (simp add: Let_def)
      have "len - va (samplePos (fst ?r)) < real k * va deltaDir"
        using Suc.prems(1) by (simp add: step_samplePos add4_def algebra_simps)
      from Suc.IH [OF this] inv show ?thesis
        unfolding e by simp
    qed
  qed
qed

lemma steps_exist:
  fixes x d :: real
  assumes "0 < d"
  shows "\<exists>k::nat. x < real k * d"
proof -
  obtain k :: nat where "x / d < real k"
    using reals_Archimedean2 by blast
  then have "x < real k * d"
    using assms by (simp add: pos_divide_less_eq)
  then show ?thesis ..
qed

text \<open>
  Claim C8 says that the final alpha, the accumulated alpha divided by 0.95 and multiplied
  by the background opacity, lies in the interval from 0 to 1. The loop stops once the
  accumulated alpha exceeds 0.95, at a value of up to 1, and nothing clamps the quotient:
  one opaque sample with a background opacity of 1 gives 20/19, as the evaluation after
  the theorem shows. What holds, for samples whose alpha lies between 0
  and 1, a background opacity between 0 and 1 and a positive step: the base pass returns,
  and the final alpha lies between 0 and the background opacity divided by 0.95, hence
  between 0 and 1/0.95.
\<close>

theorem finalAlpha_bounds:
  assumes tex: "\<forall>p. 0 \<le> va (volume p) \<and> va (volume p) \<le> 1"
    and bo: "0 \<le> backOpacity \<and> backOpacity \<le> 1"
    and oc: "0 \<le> oc" and d: "0 < va deltaDir"
  shows "\<exists>fColor hit. basePass volume backOpacity oc deltaDir len ran' pos = Some (fColor, hit)
           \<and> 0 \<le> va fColor \<and> va fColor \<le> backOpacity / earlyTermination
           \<and> va fColor \<le> 1 / earlyTermination"
proof -
  let ?s = "\<lparr>samplePos = add4 pos (scale4 ran' deltaDir), colAcc = \<lparr>vx = 0, vy = 0, vz = 0, va = 0\<rparr>,
            firstHit = \<lparr>vx = 0, vy = 0, vz = 0, va = 0\<rparr>, backNearest = len\<rparr>"
  obtain k :: nat where "len - va (samplePos ?s) < real k * va deltaDir"
    using steps_exist [OF d] by blast
  from compositeLoop_returns [OF tex oc d this]
  obtain s' where s': "compositeLoop volume oc deltaDir len ?s = Some s'"
    "0 \<le> va (colAcc s')" "va (colAcc s') \<le> 1"
    by auto
  have "va (colAcc s') / earlyTermination * backOpacity \<le> 1 / earlyTermination * 1"
    using s' bo by (intro mult_mono divide_right_mono) (simp_all add: earlyTermination_def)
  moreover have "va (colAcc s') / earlyTermination * backOpacity
      \<le> 1 / earlyTermination * backOpacity"
    using s' bo by (intro mult_right_mono divide_right_mono) (simp_all add: earlyTermination_def)
  moreover have "0 \<le> va (colAcc s') / earlyTermination * backOpacity"
    using s' bo by (simp add: earlyTermination_def)
  ultimately show ?thesis
    unfolding basePass_def Let_def s' by simp
qed


theorem finalAlpha_bounds_witness:
  "(let volume = (\<lambda>p. \<lparr>vx = 1, vy = 1, vz = 1, va = 1 / 2\<rparr>);
        d = \<lparr>vx = 0, vy = 0, vz = 1 / 10, va = 1 / 10\<rparr>
    in (\<forall>p. 0 \<le> va (volume p) \<and> va (volume p) \<le> 1)
       \<and> (0::real) \<le> 1 / 2 \<and> (1 / 2 :: real) \<le> 1 \<and> (0::real) \<le> 1 \<and> 0 < va d
       \<and> (\<exists>fColor hit. basePass volume (1 / 2) 1 d 1 0 zero4 = Some (fColor, hit)
             \<and> 0 \<le> va fColor \<and> va fColor \<le> (1 / 2) / earlyTermination
             \<and> va fColor \<le> 1 / earlyTermination))"
proof -
  define volume :: "vec3 \<Rightarrow> vec4" where "volume = (\<lambda>p. \<lparr>vx = 1, vy = 1, vz = 1, va = 1 / 2\<rparr>)"
  define d :: vec4 where "d = \<lparr>vx = 0, vy = 0, vz = 1 / 10, va = 1 / 10\<rparr>"
  have tex: "\<forall>p. 0 \<le> va (volume p) \<and> va (volume p) \<le> 1"
    by (simp add: volume_def)
  have bo: "(0::real) \<le> 1 / 2 \<and> (1 / 2 :: real) \<le> 1"
    by simp
  have oc: "(0::real) \<le> 1"
    by simp
  have dd: "0 < va d"
    by (simp add: d_def)
  from finalAlpha_bounds [OF tex bo oc dd, of 1 0 zero4] tex dd show ?thesis
    unfolding volume_def [symmetric] d_def [symmetric] Let_def by simp
qed

text \<open>The final alpha of claim C8 above 1.\<close>

theorem finalAlpha_exceeds_one:
  "map_option (va \<circ> fst)
     (basePass (uniformVolume \<lparr>vx = 1, vy = 1, vz = 1, va = 1\<rparr>) 1 1
        \<lparr>vx = 0, vy = 0, vz = 1 / 10, va = 1 / 10\<rparr> 1 0 zero4) = Some (20 / 19)
   \<and> \<not> (20 / 19 :: real) \<le> 1"
proof -
  define volume :: "vec3 \<Rightarrow> vec4"
    where "volume = uniformVolume \<lparr>vx = 1, vy = 1, vz = 1, va = 1\<rparr>"
  define d :: vec4 where "d = \<lparr>vx = 0, vy = 0, vz = 1 / 10, va = 1 / 10\<rparr>"
  define s :: ray where "s = \<lparr>samplePos = add4 zero4 (scale4 0 d),
      colAcc = \<lparr>vx = 0, vy = 0, vz = 0, va = 0\<rparr>,
      firstHit = \<lparr>vx = 0, vy = 0, vz = 0, va = 0\<rparr>, backNearest = 1\<rparr>"
  have a: "va (volume (xyz (samplePos s))) = 1"
    by (simp add: volume_def uniformVolume_def)
  have p: "va (samplePos s) \<le> 1"
    by (simp add: s_def add4_def scale4_def zero4_def)
  have c: "colAcc (fst (compositeStep volume 1 d s)) = \<lparr>vx = 1, vy = 1, vz = 1, va = 1\<rparr>"
    using step_opaque(1) [of volume s 1 d] a
    by (simp add: s_def volume_def uniformVolume_def add4_def scale4_def)
  have b: "snd (compositeStep volume 1 d s)"
    using step_opaque(2) [of volume s 1 d] a by simp
  from p b have "compositeLoop volume 1 d 1 s = Some (fst (compositeStep volume 1 d s))"
    by (subst compositeLoop.simps) (simp add: Let_def)
  then have "map_option (va \<circ> fst) (basePass volume 1 1 d 1 0 zero4) = Some (20 / 19)"
    unfolding basePass_def Let_def s_def [symmetric]
    by (simp add: c earlyTermination_def)
  then show ?thesis
    unfolding volume_def d_def by simp
qed

subsection \<open>calMinMax returns\<close>

text \<open>
  The loop that widens a degenerate range ends when it starts inside the histogram, and
  the two walks leave it there whenever their ends meet. So \<^verbatim>\<open>calMinMax\<close> returns on
  every image; it does not change the reference \<open>img\<close>.
\<close>

lemma walkLo_snd:
  "lo \<le> snd (walkLo hist n2pct n lo)
   \<and> (lt n n2pct \<longrightarrow> lo + 1 \<le> snd (walkLo hist n2pct n lo))
   \<and> (\<not> lt n n2pct \<longrightarrow> snd (walkLo hist n2pct n lo) = lo)"
proof (induction hist n2pct n lo rule: walkLo.induct)
  case (1 hist n2pct n lo)
  show ?case
  proof (cases "lt n n2pct")
    case True
    with 1 have "lo + 1 \<le> snd (walkLo hist n2pct (n + aget hist lo) (lo + 1))"
      by simp
    with True show ?thesis
      by (subst (1 2 3) walkLo.simps) simp
  next
    case False
    then show ?thesis
      by (subst (1 2 3) walkLo.simps) simp
  qed
qed

lemma walkHi_snd:
  "snd (walkHi hist n2pct n hi) \<le> hi
   \<and> (lt n n2pct \<longrightarrow> snd (walkHi hist n2pct n hi) \<le> hi - 1)
   \<and> (\<not> lt n n2pct \<longrightarrow> snd (walkHi hist n2pct n hi) = hi)"
proof (induction hist n2pct n hi rule: walkHi.induct)
  case (1 hist n2pct n hi)
  show ?case
  proof (cases "lt n n2pct")
    case True
    with 1 have "snd (walkHi hist n2pct (n + aget hist (hi - 1)) (hi - 1)) \<le> hi - 1"
      by simp
    with True show ?thesis
      by (subst (1 2 3) walkHi.simps) simp
  next
    case False
    then show ?thesis
      by (subst (1 2 3) walkHi.simps) simp
  qed
qed

lemma expand_returns:
  "0 \<le> lo \<Longrightarrow> hi \<le> nBins - 1 \<Longrightarrow> nat lo + nat (nBins - 1 - hi) = k \<Longrightarrow>
   \<exists>r. expand hist nBins lo hi = Some r"
proof (induction k arbitrary: lo hi rule: less_induct)
  case (less k)
  define lo1 where "lo1 = (if lo > 0 then lo - 1 else lo)"
  define ok1 where "ok1 = (if lo > 0 \<and> gt (aget hist lo1) 0 then True else False)"
  define hi1 where "hi1 = (if \<not> ok1 \<and> hi < nBins - 1 then hi + 1 else hi)"
  define ok2 where "ok2 = (if \<not> ok1 \<and> hi < nBins - 1 \<and> gt (aget hist hi1) 0 then True else ok1)"
  define ok3 where "ok3 = (if lo1 = 0 \<and> hi1 = nBins - 1 then True else ok2)"
  have e: "expand hist nBins lo hi = (if ok3 then Some (lo1, hi1) else expand hist nBins lo1 hi1)"
    unfolding lo1_def ok1_def hi1_def ok2_def ok3_def
    by (subst expand.simps) (simp only: Let_def if_False simp_thms)
  show ?case
  proof (cases ok3)
    case True
    with e show ?thesis by simp
  next
    case False
    have b: "0 \<le> lo1" "hi1 \<le> nBins - 1"
      using less.prems by (simp_all add: lo1_def hi1_def)
    have "nat lo1 + nat (nBins - 1 - hi1) < k"
      using False less.prems
      by (auto simp: lo1_def hi1_def ok1_def ok2_def ok3_def split: if_splits)
    from less.IH [OF this b refl] e False show ?thesis
      by simp
  qed
qed

lemma robustRange_returns:
  "\<exists>r. robustRange buf this mn mx mnScale mxScale n2pct = Some r"
proof -
  define hist where "hist = histogram (ignoreZeroVoxels this) buf mn ((Number (of_int 1001) - 1) / (mx - mn))"
  define lo where "lo = snd (walkLo hist n2pct 0 0) - 1"
  define hi where "hi = snd (walkHi hist n2pct 0 1001)"
  have "\<exists>r. (if lo = hi then expand hist 1001 lo hi else Some (lo, hi)) = Some r"
  proof (cases "lo = hi")
    case False
    then show ?thesis by simp
  next
    case True
    have "lt 0 n2pct"
    proof (rule ccontr)
      assume "\<not> lt 0 n2pct"
      then have "lo = - 1" "hi = 1001"
        using walkLo_snd [of 0 hist n2pct 0] walkHi_snd [of hist n2pct 0 1001]
        by (simp_all add: lo_def hi_def)
      with True show False by simp
    qed
    then have "0 \<le> lo" "hi \<le> 1001 - 1"
      using walkLo_snd [of 0 hist n2pct 0] walkHi_snd [of hist n2pct 0 1001]
      by (simp_all add: lo_def hi_def)
    from expand_returns [OF this refl] True show ?thesis by simp
  qed
  then obtain r where r: "(if lo = hi then expand hist 1001 lo hi else Some (lo, hi)) = Some r"
    by blast
  show ?thesis
    unfolding robustRange_def Let_def
    unfolding hist_def [symmetric] lo_def [symmetric] hi_def [symmetric] r
    by (cases r) simp
qed

lemma robustRange_img:
  "robustRange buf this mn mx mnScale mxScale n2pct = Some (this', r) \<Longrightarrow> img this' = img this"
  unfolding robustRange_def Let_def
  by (auto split: option.splits prod.splits)

lemma scanPath_returns: "\<exists>r. scanPath buf this = Some r"
  unfolding scanPath_def Let_def using robustRange_returns by simp

lemma scanPath_img: "scanPath buf this = Some (this', r) \<Longrightarrow> img this' = img this"
  unfolding scanPath_def Let_def
  by (auto split: if_splits dest: robustRange_img)

lemma calMinMax_returns: "\<exists>r. calMinMax cmaps st this = Some r"
  unfolding calMinMax_def Let_def using scanPath_returns by simp

lemma calMinMax_img: "calMinMax cmaps st this = Some (this', r) \<Longrightarrow> img this' = img this"
  unfolding calMinMax_def Let_def
  by (auto split: if_splits dest: scanPath_img)

lemma calculateRAS_img: "img (calculateRAS this) = img this"
  unfolding calculateRAS_def Let_def by simp


subsection \<open>clone and zeroImage\<close>

lemma clone_result:
  "\<exists>c. clone cmaps uuid st this = Some (st @ [deref st (img this)], c) \<and> img c = length st"
proof -
  let ?c = "calculateRAS (NVImage_default uuid\<lparr>id' := id' this, hdr := hdr this, img := length st\<rparr>)"
  obtain c r where c: "calMinMax cmaps (st @ [deref st (img this)]) ?c = Some (c, r)"
    using calMinMax_returns [of cmaps "st @ [deref st (img this)]" ?c] by auto
  then have "img c = length st"
    using calMinMax_img [OF c] by (simp add: calculateRAS_img)
  moreover have "clone cmaps uuid st this = Some (st @ [deref st (img this)], c)"
    unfolding clone_def Let_def using c by simp
  ultimately show ?thesis by blast
qed

text \<open>
  Claim C10. For an image whose buffer is in the store and whose header holds a 4x4
  affine, \<^verbatim>\<open>clone\<close> returns an image whose voxel buffer is a new array with the
  elements of the original's. Writing to the clone's array, in particular \<^verbatim>\<open>zeroImage\<close>
  (as \<^verbatim>\<open>zerosLike\<close> does), leaves the array of the original as it was.
\<close>

theorem clone_buffer_independent:
  assumes "img this < length st" and "numberMatrix (affine (hdr this))"
  shows "\<exists>st' c. clone cmaps uuid st this = Some (st', c)
           \<and> img c \<noteq> img this
           \<and> deref st' (img c) = deref st (img this)
           \<and> deref st' (img this) = deref st (img this)
           \<and> deref (st'[img c := buf']) (img this) = deref st (img this)
           \<and> deref (zeroImage st' c) (img this) = deref st (img this)
           \<and> zerosLike cmaps uuid st this = Some (zeroImage st' c, c)
           \<and> deref (zeroImage st' c) (img c) = replicate (length (deref st (img this))) 0"
proof -
  obtain c where c: "clone cmaps uuid st this = Some (st @ [deref st (img this)], c)"
    "img c = length st"
    using clone_result by blast
  let ?st' = "st @ [deref st (img this)]"
  have "img c \<noteq> img this"
    using assms c(2) by simp
  moreover have "deref ?st' (img c) = deref st (img this)"
    using c(2) by (simp add: deref_def)
  moreover have "deref ?st' (img this) = deref st (img this)"
    using assms by (simp add: deref_def nth_append)
  moreover have "deref (?st'[img c := buf']) (img this) = deref st (img this)"
    using assms c(2) by (simp add: deref_def nth_append)
  moreover have "deref (zeroImage ?st' c) (img this) = deref st (img this)"
    using assms c(2) by (simp add: zeroImage_def deref_def nth_append)
  moreover have "zerosLike cmaps uuid st this = Some (zeroImage ?st' c, c)"
    by (simp add: zerosLike_def c(1))
  moreover have "deref (zeroImage ?st' c) (img c) = replicate (length (deref st (img this))) 0"
    using c(2) by (simp add: zeroImage_def deref_def)
  ultimately show ?thesis
    using c(1) by blast
qed

theorem clone_buffer_independent_witness:
  "(let this = NVImage_default []
          \<lparr>hdr := noHdr\<lparr>affine := [[1, 0, 0, 0], [0, 1, 0, 0], [0, 0, 1, 0], [0, 0, 0, 1]],
                           scl_slope := 1, scl_inter := 0\<rparr>, img := 0\<rparr>;
        st = [[1, 2, 3]]
    in img this < length st \<and> numberMatrix (affine (hdr this))
       \<and> (\<exists>st' c. clone (\<lambda>n. None) [] st this = Some (st', c)
             \<and> img c \<noteq> img this
             \<and> deref st' (img c) = [1, 2, 3]
             \<and> deref (zeroImage st' c) (img this) = [1, 2, 3]
             \<and> zerosLike (\<lambda>n. None) [] st this = Some (zeroImage st' c, c)
             \<and> deref (zeroImage st' c) (img c) = [0, 0, 0]))"
proof -
  define this where "this = NVImage_default []
          \<lparr>hdr := noHdr\<lparr>affine := [[1, 0, 0, 0], [0, 1, 0, 0], [0, 0, 1, 0], [0, 0, 0, 1]],
                           scl_slope := 1, scl_inter := 0\<rparr>, img := 0\<rparr>"
  define st :: "jsval list list" where "st = [[1, 2, 3]]"
  have i: "img this = 0"
    by (simp add: this_def)
  have h: "img this < length st"
    by (simp add: i st_def)
  have nm: "numberMatrix (affine (hdr this))"
    by (simp add: this_def numberMatrix_def)
  have b: "deref st (img this) = [1, 2, 3]"
    by (simp add: i st_def deref_def)
  from clone_buffer_independent [OF h nm, of "\<lambda>n. None" "[]" "[]"]
  obtain st' c where "clone (\<lambda>n. None) [] st this = Some (st', c)" "img c \<noteq> img this"
    "deref st' (img c) = [1, 2, 3]" "deref (zeroImage st' c) (img this) = [1, 2, 3]"
    "zerosLike (\<lambda>n. None) [] st this = Some (zeroImage st' c, c)"
    "deref (zeroImage st' c) (img c) = [0, 0, 0]"
    unfolding b by (auto simp: numeral_3_eq_3)
  with h nm show ?thesis
    unfolding this_def [symmetric] st_def [symmetric] Let_def by blast
qed

end
